theory Spec2Isabelle
  imports Complex_Main
begin

section \<open>Numbers, clocks and random sources\<close>

text \<open>
  JavaScript numbers are modelled as exact reals: the generators only multiply, clamp and
  round, and every bound below is stated on the exact values. A decimal literal of the
  source (\<open>1.2\<close>, \<open>0.05\<close>) is the real number it denotes.

  \<open>Math.random()\<close> is the only source of randomness of the simulator. It is modelled as
  a fixed sequence \<open>rnd\<close> of draws together with the number of draws consumed so far, which
  is part of the state; the language guarantees \<open>0 \<le> rnd n < 1\<close>, which theorems assume
  where they need it. \<open>faker.number.float({min, max})\<close> of the data generator is a library
  call of the same kind: the \<open>n\<close>-th call with bounds \<open>lo\<close>, \<open>hi\<close> returns \<open>fk n lo hi\<close>.
\<close>

type_synonym rng = "nat \<Rightarrow> real"

type_synonym faker = "nat \<Rightarrow> real \<Rightarrow> real \<Rightarrow> real"

definition valid_draw :: "real \<Rightarrow> bool" where
  "valid_draw u \<longleftrightarrow> 0 \<le> u \<and> u < 1"

definition Math_round :: "real \<Rightarrow> int" where
  "Math_round x = \<lfloor>x + 1 / 2\<rfloor>"

definition Math_floor :: "real \<Rightarrow> int" where
  "Math_floor x = \<lfloor>x\<rfloor>"

text \<open>\<open>Math.round(x * 100) / 100\<close>, the rounding to two decimals used by every generator.\<close>

definition round2 :: "real \<Rightarrow> real" where
  "round2 x = real_of_int (Math_round (x * 100)) / 100"

text \<open>A \<open>Date\<close> as far as the generators read it: the instant and its local hour.\<close>

record js_date =
  millis :: int
  getHours :: nat

section \<open>streaming-service/simulator.js\<close>

text \<open>
  A row of the \<open>wind_turbines\<close> table as the generators and the routes read it (\<open>id\<close>,
  \<open>name\<close>, \<open>active\<close>, \<open>ratedCapacityKW\<close>); the rated capacity is an \<open>INTEGER\<close> column.
\<close>

record turbine =
  turbine_id :: string
  turbine_name :: string
  active :: bool
  ratedCapacityKW :: int

subsection \<open>Time-based wind factor\<close>

text \<open>
  \<open>getTimeBasedWindFactor\<close> reads the hour of \<open>new Date()\<close>, the wall clock at the
  moment of the call, not the timestamp handed to the generator; the hour is a parameter.
\<close>

definition getTimeBasedWindFactor :: "nat \<Rightarrow> real" where
  "getTimeBasedWindFactor hour =
     (if hour \<ge> 22 \<or> hour \<le> 6 then 1.2
      else if hour \<ge> 10 \<and> hour \<le> 16 then 0.6
      else 0.9)"

subsection \<open>Weather events\<close>

datatype event_type = storm | high_pressure | maintenance_window

record weather_event =
  etype :: event_type
  factor :: real
  duration :: int

definition events :: "weather_event list" where
  "events =
     [\<lparr>etype = storm, factor = 0.2, duration = 5\<rparr>,
      \<lparr>etype = high_pressure, factor = 1.5, duration = 10\<rparr>,
      \<lparr>etype = maintenance_window, factor = 0, duration = 3\<rparr>]"

text \<open>
  The module-level variables \<open>weatherEvent\<close> and \<open>weatherEventDuration\<close>, and the number
  of \<open>Math.random()\<close> calls made so far. Console output is not modelled here.
\<close>

record sim_state =
  weatherEvent :: "weather_event option"
  weatherEventDuration :: int
  calls :: nat

definition initial_state :: sim_state where
  "initial_state = \<lparr>weatherEvent = None, weatherEventDuration = 0, calls = 0\<rparr>"

text \<open>
  The first \<open>if\<close> of \<open>simulateWeatherEvents\<close>: \<open>&&\<close> short-circuits, so the Bernoulli
  draw is made only when no event is active, and the selection draw only when it succeeds.
\<close>

definition maybeStartEvent :: "rng \<Rightarrow> sim_state \<Rightarrow> sim_state" where
  "maybeStartEvent rnd st =
     (case weatherEvent st of
        Some e \<Rightarrow> st
      | None \<Rightarrow>
          (if rnd (calls st) < 0.05 then
             (let e = events ! nat (Math_floor (rnd (calls st + 1) * real (length events)))
              in st\<lparr>weatherEvent := Some e, weatherEventDuration := duration e,
                    calls := calls st + 2\<rparr>)
           else st\<lparr>calls := calls st + 1\<rparr>))"

definition simulateWeatherEvents :: "rng \<Rightarrow> sim_state \<Rightarrow> real \<times> sim_state" where
  "simulateWeatherEvents rnd st =
     (let st1 = maybeStartEvent rnd st in
      case weatherEvent st1 of
        Some e \<Rightarrow>
          (let d = weatherEventDuration st1 - 1 in
           (factor e,
            st1\<lparr>weatherEventDuration := d,
                weatherEvent := (if d \<le> 0 then None else Some e)\<rparr>))
      | None \<Rightarrow> (1.0, st1))"

text \<open>\<open>n\<close> successive calls: the factors returned, in order, and the state reached.\<close>

fun ticks :: "rng \<Rightarrow> nat \<Rightarrow> sim_state \<Rightarrow> real list \<times> sim_state" where
  "ticks rnd 0 st = ([], st)"
| "ticks rnd (Suc n) st =
     (let (f, st1) = simulateWeatherEvents rnd st;
          (fs, st2) = ticks rnd n st1
      in (f # fs, st2))"

subsection \<open>Readings\<close>

datatype outlier_type =
  negative_reading | zero_reading | extremely_high | minor_negative | unrealistic_spike

text \<open>
  The object a generator returns. A normal reading has no \<open>outlier\<close> and no
  \<open>outlierType\<close> property: \<open>outlier\<close> reads as falsy and \<open>outlierType\<close> is absent.
\<close>

record reading =
  windTurbineId :: string
  powerKW :: real
  timestamp :: js_date
  outlier :: bool
  outlierType :: "outlier_type option"

definition outlierTypes :: "outlier_type list" where
  "outlierTypes =
     [negative_reading, zero_reading, extremely_high, minor_negative, unrealistic_spike]"

text \<open>
  The \<open>generator\<close> closure of each entry of \<open>outlierTypes\<close>; \<open>u\<close> is the value of the
  \<open>Math.random()\<close> call the closure makes (\<open>zero_reading\<close> makes none).
\<close>

fun generator :: "outlier_type \<Rightarrow> int \<Rightarrow> real \<Rightarrow> real" where
  "generator negative_reading R u = - (u * real_of_int R * 0.5)"
| "generator zero_reading R u = 0"
| "generator extremely_high R u = real_of_int R * (2 + u * 3)"
| "generator minor_negative R u = - (u * 50)"
| "generator unrealistic_spike R u = real_of_int R * (1.5 + u * 2)"

fun generator_draws :: "outlier_type \<Rightarrow> nat" where
  "generator_draws zero_reading = 0"
| "generator_draws _ = 1"

definition generateOutlierReading ::
  "rng \<Rightarrow> sim_state \<Rightarrow> turbine \<Rightarrow> js_date \<Rightarrow> reading \<times> sim_state" where
  "generateOutlierReading rnd st t ts =
     (let selectedOutlier =
            outlierTypes ! nat (Math_floor (rnd (calls st) * real (length outlierTypes)));
          g = generator selectedOutlier (ratedCapacityKW t) (rnd (calls st + 1))
      in (\<lparr>windTurbineId = turbine_id t, powerKW = round2 g, timestamp = ts,
            outlier = True, outlierType = Some selectedOutlier\<rparr>,
          st\<lparr>calls := calls st + 1 + generator_draws selectedOutlier\<rparr>))"

text \<open>
  \<open>generatePowerOutput(turbine, timestamp)\<close> of the simulator. \<open>chance\<close> is the constant
  \<open>OUTLIER_CHANCE\<close> and \<open>now_hour\<close> the hour of the wall clock. The outlier draw is made
  only when \<open>OUTLIER_CHANCE > 0\<close>.
\<close>

definition generatePowerOutput ::
  "rng \<Rightarrow> int \<Rightarrow> nat \<Rightarrow> sim_state \<Rightarrow> turbine \<Rightarrow> js_date \<Rightarrow> reading \<times> sim_state" where
  "generatePowerOutput rnd chance now_hour st t ts =
     (if chance > 0 \<and> rnd (calls st) * 100 < real_of_int chance then
        generateOutlierReading rnd (st\<lparr>calls := calls st + 1\<rparr>) t ts
      else
        (let st0 = (if chance > 0 then st\<lparr>calls := calls st + 1\<rparr> else st);
             (w, st1) = simulateWeatherEvents rnd st0;
             windVariation = 0.8 + rnd (calls st1) * 0.4;
             windStrength = getTimeBasedWindFactor now_hour * w * windVariation;
             turbineEfficiency = 0.85 + rnd (calls st1 + 1) * 0.3;
             p = real_of_int (ratedCapacityKW t) * windStrength * turbineEfficiency;
             clamped = max 0 (min p (real_of_int (ratedCapacityKW t) * 1.2))
         in (\<lparr>windTurbineId = turbine_id t, powerKW = round2 clamped, timestamp = ts,
               outlier = False, outlierType = None\<rparr>,
             st1\<lparr>calls := calls st1 + 2\<rparr>)))"

text \<open>
  \<open>batch.map(turbine => generatePowerOutput(turbine, timestamp))\<close> in \<open>runSimulation\<close>:
  one generation cycle over the turbines of a batch, left to right, all at one timestamp.
\<close>

fun generateBatch ::
  "rng \<Rightarrow> int \<Rightarrow> nat \<Rightarrow> sim_state \<Rightarrow> turbine list \<Rightarrow> js_date \<Rightarrow> reading list \<times> sim_state" where
  "generateBatch rnd chance now_hour st [] ts = ([], st)"
| "generateBatch rnd chance now_hour st (t # batch) ts =
     (let (r, st1) = generatePowerOutput rnd chance now_hour st t ts;
          (rs, st2) = generateBatch rnd chance now_hour st1 batch ts
      in (r # rs, st2))"

section \<open>src/services/dataGenerator.js\<close>

text \<open>The object returned by the data generator's \<open>generatePowerOutput\<close>.\<close>

record power_data =
  pd_windTurbineId :: string
  pd_timestamp :: js_date
  pd_powerKW :: real

text \<open>
  The first draw of the function, \<open>windStrengthFactor\<close>: a random value whose range
  depends on the hour of the timestamp.
\<close>

definition windStrengthFactor :: "faker \<Rightarrow> nat \<Rightarrow> nat \<Rightarrow> real" where
  "windStrengthFactor fk k hour =
     (if hour \<ge> 22 \<or> hour \<le> 6 then fk k 0.7 1.0
      else if hour \<ge> 10 \<and> hour \<le> 16 then fk k 0.3 0.7
      else fk k 0.5 0.9)"

text \<open>
  \<open>generatePowerOutput(windTurbineId, ratedCapacityKW, timestamp)\<close>; \<open>k\<close> counts the
  faker calls made before, and the result carries the new count.
\<close>

definition dg_generatePowerOutput ::
  "faker \<Rightarrow> nat \<Rightarrow> string \<Rightarrow> int \<Rightarrow> js_date \<Rightarrow> power_data \<times> nat" where
  "dg_generatePowerOutput fk k tid R ts =
     (let hour = getHours ts;
          w = windStrengthFactor fk k hour;
          randomFactor = fk (k + 1) 0.8 1.2;
          turbineEfficiency = fk (k + 2) 0.85 1.15;
          p = real_of_int R * w * randomFactor * turbineEfficiency;
          p1 = min p (real_of_int R * 1.2);
          p2 = max 0 p1
      in (\<lparr>pd_windTurbineId = tid, pd_timestamp = ts, pd_powerKW = round2 p2\<rparr>, k + 3))"

section \<open>JavaScript strings and request values\<close>

text \<open>
  Strings are ASCII character lists. \<open>toLowerCase\<close> maps the letters \<open>A\<close> to \<open>Z\<close>,
  \<open>trim\<close> and \<open>parseInt\<close> skip the ASCII white space characters.
\<close>

definition lower_char :: "char \<Rightarrow> char" where
  "lower_char c =
     (case map_of (zip ''ABCDEFGHIJKLMNOPQRSTUVWXYZ'' ''abcdefghijklmnopqrstuvwxyz'') c of
        Some l \<Rightarrow> l
      | None \<Rightarrow> c)"

definition toLowerCase :: "string \<Rightarrow> string" where
  "toLowerCase s = map lower_char s"

definition is_space :: "char \<Rightarrow> bool" where
  "is_space c \<longleftrightarrow> c \<in> set [CHR '' '', CHR 0x09, CHR 0x0A, CHR 0x0B, CHR 0x0C, CHR 0x0D]"

definition trim :: "string \<Rightarrow> string" where
  "trim s = rev (dropWhile is_space (rev (dropWhile is_space s)))"

text \<open>\<open>s.split(',')\<close>: the pieces between the commas, empty pieces included.\<close>

fun split_comma :: "string \<Rightarrow> string list" where
  "split_comma [] = [[]]"
| "split_comma (c # cs) =
     (if c = CHR '','' then [] # split_comma cs
      else (case split_comma cs of
              w # ws \<Rightarrow> (c # w) # ws
            | [] \<Rightarrow> [[c]]))"

text \<open>\<open>xs.join(',')\<close>, which is also what \<open>String(xs)\<close> gives for an array of strings.\<close>

fun join_comma :: "string list \<Rightarrow> string" where
  "join_comma [] = []"
| "join_comma [x] = x"
| "join_comma (x # y # ys) = x @ CHR '','' # join_comma (y # ys)"

definition digit_value :: "char \<Rightarrow> nat option" where
  "digit_value c =
     map_of [(CHR ''0'', 0), (CHR ''1'', 1), (CHR ''2'', 2), (CHR ''3'', 3), (CHR ''4'', 4),
             (CHR ''5'', 5), (CHR ''6'', 6), (CHR ''7'', 7), (CHR ''8'', 8), (CHR ''9'', 9),
             (CHR ''a'', 10), (CHR ''b'', 11), (CHR ''c'', 12), (CHR ''d'', 13),
             (CHR ''e'', 14), (CHR ''f'', 15),
             (CHR ''A'', 10), (CHR ''B'', 11), (CHR ''C'', 12), (CHR ''D'', 13),
             (CHR ''E'', 14), (CHR ''F'', 15)] c"

text \<open>The longest prefix of digits of the radix, as their values.\<close>

fun leading_digits :: "nat \<Rightarrow> string \<Rightarrow> nat list" where
  "leading_digits radix [] = []"
| "leading_digits radix (c # cs) =
     (case digit_value c of
        Some d \<Rightarrow> (if d < radix then d # leading_digits radix cs else [])
      | None \<Rightarrow> [])"

text \<open>
  \<open>parseInt(s)\<close> without a radix: leading white space, an optional sign, an optional
  \<open>0x\<close> prefix selecting radix 16, then the longest prefix of digits; \<open>None\<close> is \<open>NaN\<close>.
\<close>

definition parseInt :: "string \<Rightarrow> int option" where
  "parseInt s =
     (let s1 = dropWhile is_space s;
          (sign, s2) = (case s1 of
                          c # r \<Rightarrow> (if c = CHR ''-'' then (- 1, r)
                                    else if c = CHR ''+'' then (1, r) else (1, s1))
                        | [] \<Rightarrow> (1 :: int, s1));
          (radix, s3) = (case s2 of
                           c # x # r \<Rightarrow> (if c = CHR ''0'' \<and> (x = CHR ''x'' \<or> x = CHR ''X'')
                                         then (16, r) else (10 :: nat, s2))
                         | _ \<Rightarrow> (10, s2));
          ds = leading_digits radix s3
      in if ds = [] then None
         else Some (sign * int (foldl (\<lambda>a d. a * radix + d) 0 ds)))"

text \<open>
  A value of \<open>req.query\<close>: a string, an array of strings (a repeated parameter) or a
  nested object.
\<close>

datatype qvalue = QString string | QArray "string list" | QObject

type_synonym query = "(string \<times> qvalue) list"

fun toString :: "qvalue \<Rightarrow> string" where
  "toString (QString s) = s"
| "toString (QArray xs) = join_comma xs"
| "toString QObject = ''[object Object]''"

section \<open>src/utils/queryNormalizer.js\<close>

definition normalizeQueryParams :: "query \<Rightarrow> string list \<Rightarrow> (string \<rightharpoonup> qvalue)" where
  "normalizeQueryParams query expectedParams =
     (let paramMap = foldl (\<lambda>m param. m(toLowerCase param \<mapsto> param)) Map.empty expectedParams
      in foldl (\<lambda>normalized (key, v).
                  (let normalizedKey = (case paramMap (toLowerCase key) of
                                          Some p \<Rightarrow> (if p \<noteq> [] then p else key)
                                        | None \<Rightarrow> key)
                   in normalized(normalizedKey \<mapsto> v)))
               Map.empty query)"

section \<open>src/utils/pagination.js\<close>

definition DEFAULT_LIMIT :: int where "DEFAULT_LIMIT = 25"
definition MAX_LIMIT :: int where "MAX_LIMIT = 100"
definition MIN_LIMIT :: int where "MIN_LIMIT = 1"

text \<open>
  \<open>validateLimit(limit, defaultLimit)\<close>; the first argument is the value of
  \<open>parseInt(limit)\<close>, \<open>None\<close> for \<open>NaN\<close>. \<open>NaN\<close> and \<open>0\<close> are falsy and give the default.
\<close>

definition validateLimit :: "int option \<Rightarrow> int \<Rightarrow> int" where
  "validateLimit parsed defaultLimit =
     (let parsedLimit = (case parsed of
                           None \<Rightarrow> defaultLimit
                         | Some n \<Rightarrow> (if n = 0 then defaultLimit else n))
      in min MAX_LIMIT (max MIN_LIMIT parsedLimit))"

section \<open>JSON values and the store\<close>

text \<open>
  A parsed request body. An object is the list of its members, whose keys are distinct.
\<close>

datatype json =
  JNull | JBool bool | JNumber real | JString string | JArray "json list"
  | JObject "(string \<times> json) list"

datatype error = TypeError | HeadersSentError | PersistenceError | NetworkError

text \<open>
  \<open>v.name\<close> for a parsed JSON value, for a name that is not a built-in property: reading
  a property of \<open>null\<close> throws, an object gives its member or \<open>undefined\<close> (\<open>None\<close>), every
  other value gives \<open>undefined\<close>.
\<close>

fun get_prop :: "json \<Rightarrow> string \<Rightarrow> error + json option" where
  "get_prop JNull name = Inl TypeError"
| "get_prop (JObject members) name = Inr (map_of members name)"
| "get_prop _ name = Inr None"

text \<open>Truthiness of a property value; \<open>undefined\<close> is falsy.\<close>

fun truthy :: "json option \<Rightarrow> bool" where
  "truthy None = False"
| "truthy (Some JNull) = False"
| "truthy (Some (JBool b)) = b"
| "truthy (Some (JNumber x)) = (x \<noteq> 0)"
| "truthy (Some (JString s)) = (s \<noteq> [])"
| "truthy (Some (JArray xs)) = True"
| "truthy (Some (JObject ms)) = True"

text \<open>The argument of the \<open>timestamp\<close> column: a \<open>Date\<close> object, or \<open>new Date(v)\<close>.\<close>

datatype date_arg = DateObj js_date | NewDate json

text \<open>A row handed to \<open>PowerOutput.create\<close>.\<close>

record power_output_row =
  po_windTurbineId :: json
  po_powerKW :: real
  po_timestamp :: date_arg

record database =
  windTurbines :: "turbine list"
  powerOutputs :: "power_output_row list"

text \<open>
  \<open>PowerOutput.create(row)\<close> appends the row or throws; which rows the store refuses
  (constraint violations, an unavailable database) is the parameter \<open>rejects\<close>.
\<close>

definition create :: "(power_output_row \<Rightarrow> bool) \<Rightarrow> power_output_row \<Rightarrow> database \<Rightarrow> error + database" where
  "create rejects row db =
     (if rejects row then Inl PersistenceError
      else Inr (db\<lparr>powerOutputs := powerOutputs db @ [row]\<rparr>))"

text \<open>
  \<open>WindTurbine.findAll({where: {active: true, id: {[Op.in]: ids}}, limit})\<close>: the first
  \<open>limit\<close> matching rows in the order of the table.
\<close>

definition findAll :: "database \<Rightarrow> string list \<Rightarrow> int \<Rightarrow> turbine list" where
  "findAll db ids limit =
     take (nat limit) (filter (\<lambda>t. active t \<and> turbine_id t \<in> set ids) (windTurbines db))"

section \<open>src/routes/streaming.js\<close>

subsection \<open>GET /power-output\<close>

record connected_event =
  ce_connectionId :: string
  ce_interval :: "int option"
  ce_turbineFilter :: "string list"
  ce_turbineCount :: nat

text \<open>
  The handler up to the point where the stream is open. \<open>connectionId\<close> is the identifier
  it generates and \<open>now\<close> the value of \<open>new Date()\<close>. The model records what the handler
  writes and registers: the entry added to \<open>sseConnections\<close> carries the period handed to
  \<open>setInterval\<close>, \<open>parseInt(interval) * 1000\<close>, which is \<open>None\<close> for \<open>NaN\<close>. The cycle
  run at once and then by the timer is \<open>sendPowerData\<close> below.

  What the handler does with the response: the 400 sent with \<open>res.status(400).json\<close>
  before any header is written; an exception thrown after \<open>res.writeHead(200)\<close>, which the
  handler does not catch, so that nothing is answered; or the open stream with its
  \<open>connected\<close> event. Two statements throw there: \<open>split\<close> called on a value that is not
  a string (\<open>TypeError\<close>), and the \<open>res.writeHead(400)\<close> of the blank-identifier branch,
  which comes after the headers of the stream were written (\<open>ERR_HTTP_HEADERS_SENT\<close>).
\<close>

datatype sse_response =
  Json400 string | Head200_Throws error | Stream connected_event

record sse_connection =
  conn_turbineFilter :: "string list"
  conn_startTime :: js_date
  conn_intervalMs :: "int option"

type_synonym sse_connections = "string \<rightharpoonup> sse_connection"

definition get_power_output ::
  "string \<Rightarrow> js_date \<Rightarrow> query \<Rightarrow> sse_connections \<Rightarrow> sse_response \<times> sse_connections" where
  "get_power_output connectionId now query conns =
     (let normalizedQuery = normalizeQueryParams query [''windTurbineIds'', ''interval''];
          parsed = (case normalizedQuery ''interval'' of
                      None \<Rightarrow> Some 10
                    | Some v \<Rightarrow> parseInt (toString v))
      in case normalizedQuery ''windTurbineIds'' of
           None \<Rightarrow> (Json400 ''windTurbineIds parameter is required'', conns)
         | Some (QString s) \<Rightarrow>
             (if s = [] then (Json400 ''windTurbineIds parameter is required'', conns)
              else
                (let turbineFilter = filter (\<lambda>id. id \<noteq> []) (map trim (split_comma s)) in
                 if length turbineFilter = 0 then
                   (Head200_Throws HeadersSentError, conns)
                 else
                   (Stream \<lparr>ce_connectionId = connectionId, ce_interval = parsed,
                            ce_turbineFilter = turbineFilter,
                            ce_turbineCount = length turbineFilter\<rparr>,
                    conns(connectionId \<mapsto>
                      \<lparr>conn_turbineFilter = turbineFilter, conn_startTime = now,
                       conn_intervalMs = map_option (\<lambda>n. n * 1000) parsed\<rparr>))))
         | Some _ \<Rightarrow> (Head200_Throws TypeError, conns))"

text \<open>A validation error is a 400 that is delivered.\<close>

fun is_validation_error :: "sse_response \<Rightarrow> bool" where
  "is_validation_error (Json400 m) = True"
| "is_validation_error _ = False"

subsection \<open>sendPowerData\<close>

text \<open>
  An entry of \<open>powerOutputs\<close>. \<open>efficiency\<close> divides by the rated capacity; for a capacity
  of \<open>0\<close> the quotient is \<open>NaN\<close> or infinite, which is \<open>None\<close> here.
\<close>

record power_output_entry =
  pe_turbineId :: string
  pe_turbineName :: string
  pe_powerKW :: real
  pe_ratedCapacityKW :: int
  pe_efficiency :: "real option"
  pe_timestamp :: js_date

record power_output_event =
  ev_timestamp :: js_date
  ev_turbineCount :: nat
  ev_powerOutputs :: "power_output_entry list"

datatype sse_event = PowerOutputEvent power_output_event | ErrorEvent string

text \<open>
  The \<open>for\<close> loop of \<open>sendPowerData\<close>: generate, persist, collect. A refused \<open>create\<close>
  leaves the loop with the error; rows persisted before stay.
\<close>

fun generateAndSave ::
  "faker \<Rightarrow> (power_output_row \<Rightarrow> bool) \<Rightarrow> js_date \<Rightarrow> turbine list \<Rightarrow> nat \<Rightarrow> database \<Rightarrow>
     (error + power_output_entry list) \<times> nat \<times> database" where
  "generateAndSave fk rejects ts [] k db = (Inr [], k, db)"
| "generateAndSave fk rejects ts (t # rest) k db =
     (let (powerData, k1) = dg_generatePowerOutput fk k (turbine_id t) (ratedCapacityKW t) ts;
          row = \<lparr>po_windTurbineId = JString (pd_windTurbineId powerData),
                 po_powerKW = pd_powerKW powerData,
                 po_timestamp = DateObj (pd_timestamp powerData)\<rparr>
      in case create rejects row db of
           Inl e \<Rightarrow> (Inl e, k1, db)
         | Inr db1 \<Rightarrow>
             (let entry = \<lparr>pe_turbineId = turbine_id t, pe_turbineName = turbine_name t,
                           pe_powerKW = pd_powerKW powerData,
                           pe_ratedCapacityKW = ratedCapacityKW t,
                           pe_efficiency =
                             (if ratedCapacityKW t = 0 then None
                              else Some (round2 (pd_powerKW powerData
                                                   / real_of_int (ratedCapacityKW t) * 100))),
                           pe_timestamp = ts\<rparr>
              in case generateAndSave fk rejects ts rest k1 db1 of
                   (Inl e, k2, db2) \<Rightarrow> (Inl e, k2, db2)
                 | (Inr entries, k2, db2) \<Rightarrow> (Inr (entry # entries), k2, db2)))"

definition sendPowerData ::
  "faker \<Rightarrow> (power_output_row \<Rightarrow> bool) \<Rightarrow> js_date \<Rightarrow> string list \<Rightarrow> nat \<Rightarrow> database \<Rightarrow>
     sse_event \<times> nat \<times> database" where
  "sendPowerData fk rejects ts turbineFilter k db =
     (let turbines = findAll db turbineFilter (validateLimit (Some 25) DEFAULT_LIMIT)
      in case generateAndSave fk rejects ts turbines k db of
           (Inl e, k1, db1) \<Rightarrow> (ErrorEvent ''Failed to generate power data'', k1, db1)
         | (Inr entries, k1, db1) \<Rightarrow>
             (PowerOutputEvent \<lparr>ev_timestamp = ts, ev_turbineCount = length entries,
                                ev_powerOutputs = entries\<rparr>, k1, db1))"

subsection \<open>POST /power-output/batch\<close>

datatype batch_response = Created201 nat nat | BadRequest400 | ServerError500

text \<open>
  The test of the loop, \<open>!reading.windTurbineId || typeof reading.powerKW !== 'number'\<close>:
  \<open>None\<close> when the reading is skipped, the turbine id and the power when it is kept; it
  throws on a \<open>null\<close> element.
\<close>

definition accepted :: "json \<Rightarrow> error + (json \<times> real) option" where
  "accepted reading =
     (case get_prop reading ''windTurbineId'' of
        Inl e \<Rightarrow> Inl e
      | Inr None \<Rightarrow> Inr None
      | Inr (Some tid) \<Rightarrow>
          (if \<not> truthy (Some tid) then Inr None
           else (case get_prop reading ''powerKW'' of
                   Inl e \<Rightarrow> Inl e
                 | Inr (Some (JNumber x)) \<Rightarrow> Inr (Some (tid, x))
                 | Inr _ \<Rightarrow> Inr None)))"

text \<open>The row created for a reading that is kept.\<close>

definition row_of :: "js_date \<Rightarrow> json \<Rightarrow> json \<Rightarrow> real \<Rightarrow> power_output_row" where
  "row_of now reading tid x =
     \<lparr>po_windTurbineId = tid, po_powerKW = x,
      po_timestamp = (case get_prop reading ''timestamp'' of
                        Inr (Some v) \<Rightarrow> (if truthy (Some v) then NewDate v else DateObj now)
                      | _ \<Rightarrow> DateObj now)\<rparr>"

text \<open>
  The loop over \<open>readings\<close>: the number of rows saved, or the error thrown; rows saved
  before an error stay.
\<close>

fun saveReadings ::
  "(power_output_row \<Rightarrow> bool) \<Rightarrow> js_date \<Rightarrow> json list \<Rightarrow> nat \<Rightarrow> database \<Rightarrow>
     (error + nat) \<times> database" where
  "saveReadings rejects now [] saved db = (Inr saved, db)"
| "saveReadings rejects now (reading # rest) saved db =
     (case accepted reading of
        Inl e \<Rightarrow> (Inl e, db)
      | Inr None \<Rightarrow> saveReadings rejects now rest saved db
      | Inr (Some (tid, x)) \<Rightarrow>
          (case create rejects (row_of now reading tid x) db of
             Inl e \<Rightarrow> (Inl e, db)
           | Inr db1 \<Rightarrow> saveReadings rejects now rest (saved + 1) db1))"

definition post_batch ::
  "(power_output_row \<Rightarrow> bool) \<Rightarrow> js_date \<Rightarrow> json \<Rightarrow> database \<Rightarrow> batch_response \<times> database" where
  "post_batch rejects now body db =
     (case get_prop body ''readings'' of
        Inl e \<Rightarrow> (ServerError500, db)
      | Inr (Some (JArray readings)) \<Rightarrow>
          (case saveReadings rejects now readings 0 db of
             (Inl e, db1) \<Rightarrow> (ServerError500, db1)
           | (Inr saved, db1) \<Rightarrow> (Created201 saved (length readings), db1))
      | Inr _ \<Rightarrow> (BadRequest400, db))"

section \<open>The simulator's driver loop\<close>

definition BATCH_SIZE :: nat where
  "BATCH_SIZE = 20"

text \<open>The loop that slices the turbines into batches of \<open>BATCH_SIZE\<close>.\<close>

function slice_batches :: "turbine list \<Rightarrow> turbine list list" where
  "slice_batches turbines =
     (if turbines = [] then []
      else take BATCH_SIZE turbines # slice_batches (drop BATCH_SIZE turbines))"
  by pat_completeness auto
termination
  by (relation "measure length") (auto simp: BATCH_SIZE_def)

declare slice_batches.simps [simp del]

text \<open>
  What one run of \<open>runSimulation\<close> does, in order: console lines (their fixed text), the
  batches submitted, the one-second pauses and the timer armed for the next run.
\<close>

datatype action =
  ConsoleLog string | ConsoleError string | SendBatch "reading list" | Wait nat
  | SetTimeout_runSimulation int

text \<open>
  The \<open>for\<close> loop over the batches. Batch \<open>i\<close> is generated at \<open>clock i\<close>, the value of
  \<open>new Date()\<close> then, and \<open>send_ok i\<close> tells whether \<open>sendPowerReadings\<close> resolves for it;
  a rejection is caught inside the loop.
\<close>

fun process_batches ::
  "rng \<Rightarrow> int \<Rightarrow> (nat \<Rightarrow> js_date) \<Rightarrow> (nat \<Rightarrow> bool) \<Rightarrow> nat \<Rightarrow> turbine list list \<Rightarrow> sim_state \<Rightarrow>
     action list \<times> sim_state" where
  "process_batches rnd chance clock send_ok i [] st = ([], st)"
| "process_batches rnd chance clock send_ok i (batch # rest) st =
     (let ts = clock i;
          (readings, st1) = generateBatch rnd chance (getHours ts) st batch ts;
          report = (if send_ok i then ConsoleLog ''Sent power readings for batch''
                    else ConsoleError ''Error sending batch:'');
          (more, st2) = process_batches rnd chance clock send_ok (i + 1) rest st1
      in ([SendBatch readings, report, Wait 1000] @ more, st2))"

text \<open>
  \<open>runSimulation\<close>. \<open>fetched\<close> is the outcome of \<open>fetchActiveTurbines\<close>; a rejection is
  caught by the outer \<open>catch\<close>, after which control reaches the \<open>setTimeout\<close> at the end of
  the function. \<open>interval\<close> is the constant \<open>STREAMING_INTERVAL\<close>.
\<close>

definition runSimulation ::
  "rng \<Rightarrow> int \<Rightarrow> int \<Rightarrow> (nat \<Rightarrow> js_date) \<Rightarrow> error + turbine list \<Rightarrow> (nat \<Rightarrow> bool) \<Rightarrow> sim_state \<Rightarrow>
     action list \<times> sim_state" where
  "runSimulation rnd chance interval clock fetched send_ok st =
     (case fetched of
        Inl e \<Rightarrow>
          ([ConsoleLog ''Fetching active turbines...'', ConsoleError ''Simulation error:'',
            ConsoleLog ''Retrying in 30 seconds...'',
            SetTimeout_runSimulation (interval * 1000)], st)
      | Inr turbines \<Rightarrow>
          (if length turbines = 0 then
             ([ConsoleLog ''Fetching active turbines...'',
               ConsoleLog ''No active turbines found. Retrying in 30 seconds...'',
               SetTimeout_runSimulation 30000], st)
           else
             (let (acts, st1) =
                    process_batches rnd chance clock send_ok 0 (slice_batches turbines) st
              in ([ConsoleLog ''Fetching active turbines...'', ConsoleLog ''Found active turbines'']
                  @ acts
                  @ [ConsoleLog ''Simulation cycle completed.'',
                     SetTimeout_runSimulation (interval * 1000)], st1))))"

fun is_timeout :: "action \<Rightarrow> bool" where
  "is_timeout (SetTimeout_runSimulation d) = True"
| "is_timeout _ = False"

fun is_send :: "action \<Rightarrow> bool" where
  "is_send (SendBatch rs) = True"
| "is_send _ = False"

section \<open>Notions used in the statements\<close>

text \<open>The contract of \<open>faker.number.float\<close>: a value between \<open>min\<close> and \<open>max\<close>.\<close>

definition faker_in_range :: "faker \<Rightarrow> bool" where
  "faker_in_range fk \<longleftrightarrow> (\<forall>n lo hi. lo \<le> hi \<longrightarrow> lo \<le> fk n lo hi \<and> fk n lo hi \<le> hi)"

text \<open>The \<open>windTurbineIds\<close> value the handler reads, and the identifiers it extracts.\<close>

definition requested_ids :: "query \<Rightarrow> qvalue option" where
  "requested_ids q = normalizeQueryParams q [''windTurbineIds'', ''interval''] ''windTurbineIds''"

definition id_list :: "string \<Rightarrow> string list" where
  "id_list s = filter (\<lambda>id. id \<noteq> []) (map trim (split_comma s))"

text \<open>A reading the loop keeps, and the rows a list of readings gives rise to.\<close>

definition well_formed :: "json \<Rightarrow> bool" where
  "well_formed reading = (case accepted reading of Inr (Some p) \<Rightarrow> True | _ \<Rightarrow> False)"

definition rows_of :: "js_date \<Rightarrow> json list \<Rightarrow> power_output_row list" where
  "rows_of now readings =
     concat (map (\<lambda>r. case accepted r of
                         Inr (Some (tid, x)) \<Rightarrow> [row_of now r tid x]
                       | _ \<Rightarrow> []) readings)"

section \<open>Concrete inputs\<close>

definition t1000 :: turbine where
  "t1000 = \<lparr>turbine_id = ''T1'', turbine_name = ''Swift-Eagle-001'', active = True,
            ratedCapacityKW = 1000\<rparr>"

definition noon :: js_date where
  "noon = \<lparr>millis = 0, getHours = 12\<rparr>"

definition storm_ending :: sim_state where
  "storm_ending = \<lparr>weatherEvent = Some \<lparr>etype = storm, factor = 0.2, duration = 5\<rparr>,
                    weatherEventDuration = 1, calls = 0\<rparr>"

definition spawning_rnd :: rng where
  "spawning_rnd n = (if n = 0 then 0.01 else 0.5)"

definition storm_started :: sim_state where
  "storm_started = \<lparr>weatherEvent = Some \<lparr>etype = storm, factor = 0.2, duration = 5\<rparr>,
                    weatherEventDuration = 5, calls = 0\<rparr>"

definition t2000 :: turbine where
  "t2000 = \<lparr>turbine_id = ''T2'', turbine_name = ''Mighty-Eagle-002'', active = True,
            ratedCapacityKW = 2000\<rparr>"

definition night :: js_date where
  "night = \<lparr>millis = 0, getHours = 23\<rparr>"

definition faker_min :: faker where
  "faker_min n lo hi = lo"

definition faker_max :: faker where
  "faker_max n lo hi = hi"

definition faker_mid :: faker where
  "faker_mid n lo hi = (lo + hi) / 2"

definition two_turbine_query :: "string \<Rightarrow> query" where
  "two_turbine_query interval =
     [(''windTurbineIds'', QString ''T1,T2''), (''interval'', QString interval)]"

definition scenario_body :: json where
  "scenario_body =
     JObject [(''readings'',
       JArray [JObject [(''windTurbineId'', JString ''T1''), (''powerKW'', JNumber 500)],
               JObject [(''windTurbineId'', JString ''T2'')]])]"

definition null_reading_body :: json where
  "null_reading_body =
     JObject [(''readings'',
       JArray [JObject [(''windTurbineId'', JString ''T1''), (''powerKW'', JNumber 500)],
               JNull,
               JObject [(''windTurbineId'', JString ''T2''), (''powerKW'', JNumber 300)]])]"

definition empty_db :: database where
  "empty_db = \<lparr>windTurbines = [], powerOutputs = []\<rparr>"

definition fleet :: "nat \<Rightarrow> turbine list" where
  "fleet n = map (\<lambda>i. \<lparr>turbine_id = replicate (Suc i) CHR ''t'', turbine_name = ''Wind'',
                         active = True, ratedCapacityKW = 2000\<rparr>) [0..<n]"

definition fleet_db :: "nat \<Rightarrow> database" where
  "fleet_db n = \<lparr>windTurbines = fleet n, powerOutputs = []\<rparr>"

section \<open>Rounding and clamping\<close>

lemma Math_round_le: "y \<le> real_of_int m \<Longrightarrow> Math_round y \<le> m"
  unfolding Math_round_def by linarith

lemma Math_round_ge: "real_of_int m \<le> y \<Longrightarrow> m \<le> Math_round y"
  unfolding Math_round_def by linarith

lemma round2_bounds:
  assumes "real_of_int a / 100 \<le> x" and "x \<le> real_of_int b / 100"
  shows "real_of_int a / 100 \<le> round2 x \<and> round2 x \<le> real_of_int b / 100"
proof -
  have "a \<le> Math_round (x * 100)" using assms(1) by (intro Math_round_ge) simp
  moreover have "Math_round (x * 100) \<le> b" using assms(2) by (intro Math_round_le) simp
  ultimately show ?thesis unfolding round2_def by simp
qed

lemma round2_two_decimals: "\<exists>k::int. round2 x = real_of_int k / 100"
  unfolding round2_def by blast

lemma clamp_round2:
  assumes "0 \<le> R"
  shows "0 \<le> round2 (max 0 (min p (real_of_int R * 1.2)))
       \<and> round2 (max 0 (min p (real_of_int R * 1.2))) \<le> 1.2 * real_of_int R"
proof -
  let ?c = "max 0 (min p (real_of_int R * 1.2))"
  have "real_of_int 0 / 100 \<le> ?c" by simp
  moreover have "?c \<le> real_of_int (120 * R) / 100" using assms by simp
  ultimately have "real_of_int 0 / 100 \<le> round2 ?c \<and> round2 ?c \<le> real_of_int (120 * R) / 100"
    by (rule round2_bounds)
  then show ?thesis by simp
qed

lemma generatePowerOutput_normal:
  assumes "\<not> outlier (fst (generatePowerOutput rnd chance h st t ts))"
  shows "\<exists>p. powerKW (fst (generatePowerOutput rnd chance h st t ts)) =
           round2 (max 0 (min p (real_of_int (ratedCapacityKW t) * 1.2)))"
  using assms
  by (auto simp: generatePowerOutput_def generateOutlierReading_def Let_def split: prod.splits if_splits)


section \<open>The weather model\<close>

lemma floor_scaled_draw:
  assumes "valid_draw u" and "0 < n"
  shows "\<exists>k<n. Math_floor (u * real n) = int k
            \<and> real k / real n \<le> u \<and> u < (real k + 1) / real n"
proof -
  from assms have u: "0 \<le> u" "u < 1" by (simp_all add: valid_draw_def)
  have nn: "0 \<le> u * real n" using u by simp
  have lt: "u * real n < real n" using u assms(2) by simp
  define k where "k = nat \<lfloor>u * real n\<rfloor>"
  have fl: "\<lfloor>u * real n\<rfloor> = int k" using nn by (simp add: k_def)
  have "real_of_int \<lfloor>u * real n\<rfloor> \<le> u * real n" by (rule of_int_floor_le)
  then have lo: "real k \<le> u * real n" using fl by simp
  have "u * real n < real_of_int \<lfloor>u * real n\<rfloor> + 1" by linarith
  then have hi: "u * real n < real k + 1" using fl by simp
  have "real k < real n" using lo lt by linarith
  then have "k < n" by simp
  moreover have "real k / real n \<le> u" using lo assms(2) by (simp add: field_simps)
  moreover have "u < (real k + 1) / real n" using hi assms(2) by (simp add: field_simps)
  ultimately show ?thesis using fl unfolding Math_floor_def by blast
qed

lemma simulateWeatherEvents_active:
  assumes "weatherEvent st = Some e"
  shows "simulateWeatherEvents rnd st =
           (factor e,
            st\<lparr>weatherEventDuration := weatherEventDuration st - 1,
                weatherEvent := (if weatherEventDuration st - 1 \<le> 0 then None else Some e)\<rparr>)"
  using assms by (simp add: simulateWeatherEvents_def maybeStartEvent_def Let_def)

lemma simulateWeatherEvents_quiet:
  assumes "weatherEvent st = None" and "\<not> rnd (calls st) < 0.05"
  shows "simulateWeatherEvents rnd st = (1, st\<lparr>calls := calls st + 1\<rparr>)"
  using assms by (simp add: simulateWeatherEvents_def maybeStartEvent_def Let_def)

lemma events_nth:
  "events ! 0 = \<lparr>etype = storm, factor = 0.2, duration = 5\<rparr>"
  "events ! Suc 0 = \<lparr>etype = high_pressure, factor = 1.5, duration = 10\<rparr>"
  "events ! 2 = \<lparr>etype = maintenance_window, factor = 0, duration = 3\<rparr>"
  "length events = 3"
  by (simp_all add: events_def)

lemma less_3_cases: "k < (3::nat) \<Longrightarrow> k = 0 \<or> k = Suc 0 \<or> k = 2"
  by arith

lemma events_duration_ge: "k < 3 \<Longrightarrow> 3 \<le> duration (events ! k)"
  by (auto dest!: less_3_cases simp: events_nth)

lemma simulateWeatherEvents_spawn:
  assumes "weatherEvent st = None" and "rnd (calls st) < 0.05"
    and "valid_draw (rnd (calls st + 1))"
  shows "\<exists>k<3. real k / 3 \<le> rnd (calls st + 1) \<and> rnd (calls st + 1) < (real k + 1) / 3
           \<and> simulateWeatherEvents rnd st =
               (factor (events ! k),
                st\<lparr>weatherEvent := Some (events ! k),
                    weatherEventDuration := duration (events ! k) - 1,
                    calls := calls st + 2\<rparr>)"
proof -
  from floor_scaled_draw [OF assms(3), of 3] obtain k where k: "k < 3"
    "Math_floor (rnd (calls st + 1) * 3) = int k"
    "real k / 3 \<le> rnd (calls st + 1)" "rnd (calls st + 1) < (real k + 1) / 3"
    by auto
  have d: "\<not> duration (events ! k) - 1 \<le> 0" using events_duration_ge [OF k(1)] by simp
  have "simulateWeatherEvents rnd st =
               (factor (events ! k),
                st\<lparr>weatherEvent := Some (events ! k),
                    weatherEventDuration := duration (events ! k) - 1,
                    calls := calls st + 2\<rparr>)"
    using assms(1,2) k(2) d
    by (simp add: simulateWeatherEvents_def maybeStartEvent_def Let_def events_nth(4))
  with k show ?thesis by blast
qed

lemma ticks_active_partial:
  assumes "weatherEvent st = Some e" and "int m < weatherEventDuration st"
  shows "ticks rnd m st =
           (replicate m (factor e), st\<lparr>weatherEventDuration := weatherEventDuration st - int m\<rparr>)"
  using assms
proof (induction m arbitrary: st)
  case 0
  then show ?case by simp
next
  case (Suc m)
  let ?st1 = "st\<lparr>weatherEventDuration := weatherEventDuration st - 1\<rparr>"
  have step: "simulateWeatherEvents rnd st = (factor e, ?st1)"
    using Suc.prems by (simp add: simulateWeatherEvents_active)
  have "ticks rnd m ?st1 =
          (replicate m (factor e),
           ?st1\<lparr>weatherEventDuration := weatherEventDuration ?st1 - int m\<rparr>)"
    using Suc.prems by (intro Suc.IH) simp_all
  then show ?case using step by (simp add: algebra_simps)
qed

lemma ticks_add:
  "ticks rnd (m + n) st =
     (fst (ticks rnd m st) @ fst (ticks rnd n (snd (ticks rnd m st))),
      snd (ticks rnd n (snd (ticks rnd m st))))"
  by (induction m arbitrary: st) (simp_all add: split_beta Let_def)

lemma ticks_one:
  "ticks rnd (Suc 0) st =
     ([fst (simulateWeatherEvents rnd st)], snd (simulateWeatherEvents rnd st))"
  by (simp add: split_beta)

lemma ticks_active_full:
  assumes "weatherEvent st = Some e" and "weatherEventDuration st = int (Suc m)"
  shows "ticks rnd (Suc m) st =
           (replicate (Suc m) (factor e),
            st\<lparr>weatherEventDuration := 0, weatherEvent := None\<rparr>)"
proof -
  have a: "ticks rnd m st =
           (replicate m (factor e), st\<lparr>weatherEventDuration := weatherEventDuration st - int m\<rparr>)"
    using assms by (intro ticks_active_partial) simp_all
  have "ticks rnd (m + Suc 0) st =
     (fst (ticks rnd m st) @ fst (ticks rnd (Suc 0) (snd (ticks rnd m st))),
      snd (ticks rnd (Suc 0) (snd (ticks rnd m st))))"
    by (rule ticks_add)
  then show ?thesis
    unfolding ticks_one a using assms
    by (simp add: simulateWeatherEvents_active replicate_append_same)
qed

lemma ticks_Suc:
  "ticks rnd (Suc n) st =
     (fst (simulateWeatherEvents rnd st) # fst (ticks rnd n (snd (simulateWeatherEvents rnd st))),
      snd (ticks rnd n (snd (simulateWeatherEvents rnd st))))"
  by (simp add: split_beta Let_def)

lemma spawned_event_runs_its_duration:
  assumes "weatherEvent st = None" and "rnd (calls st) < 0.05"
    and "valid_draw (rnd (calls st + 1))"
  shows "\<exists>e. e \<in> set events
          \<and> weatherEvent (snd (simulateWeatherEvents rnd st)) = Some e
          \<and> (\<forall>m. 0 < m \<and> m < nat (duration e) \<longrightarrow>
                 weatherEvent (snd (ticks rnd m st)) = Some e)
          \<and> ticks rnd (nat (duration e)) st =
              (replicate (nat (duration e)) (factor e),
               st\<lparr>weatherEvent := None, weatherEventDuration := 0, calls := calls st + 2\<rparr>)"
proof -
  from simulateWeatherEvents_spawn [OF assms] obtain k where k: "k < 3"
    and step: "simulateWeatherEvents rnd st =
               (factor (events ! k),
                st\<lparr>weatherEvent := Some (events ! k),
                    weatherEventDuration := duration (events ! k) - 1,
                    calls := calls st + 2\<rparr>)"
    by blast
  define e where "e = events ! k"
  define st1 where "st1 = st\<lparr>weatherEvent := Some e,
                    weatherEventDuration := duration e - 1, calls := calls st + 2\<rparr>"
  have step': "simulateWeatherEvents rnd st = (factor e, st1)"
    using step by (simp add: e_def st1_def)
  have d: "3 \<le> duration e" using events_duration_ge [OF k] by (simp add: e_def)
  have mem: "e \<in> set events" using k by (simp add: e_def events_nth(4))
  have st1: "weatherEvent st1 = Some e" "weatherEventDuration st1 = duration e - 1"
    by (simp_all add: st1_def)
  have during: "weatherEvent (snd (ticks rnd m st)) = Some e"
    if "0 < m \<and> m < nat (duration e)" for m
  proof -
    from that obtain m' where m: "m = Suc m'" by (cases m) auto
    have "int m' < weatherEventDuration st1" using that m st1(2) by simp
    from ticks_active_partial [OF st1(1) this, of rnd]
    show ?thesis by (simp add: m ticks_Suc step' st1(1))
  qed
  have "2 \<le> nat (duration e)" using d by simp
  then obtain n where "nat (duration e) = 2 + n" unfolding nat_le_iff_add by blast
  then have n: "nat (duration e) = Suc (Suc n)" by simp
  have "weatherEventDuration st1 = int (Suc n)" using n st1(2) by linarith
  from ticks_active_full [OF st1(1) this, of rnd]
  have "ticks rnd (nat (duration e)) st =
      (replicate (nat (duration e)) (factor e),
       st1\<lparr>weatherEventDuration := 0, weatherEvent := None\<rparr>)"
    unfolding n by (subst ticks_Suc) (simp add: step')
  then have full: "ticks rnd (nat (duration e)) st =
              (replicate (nat (duration e)) (factor e),
               st\<lparr>weatherEvent := None, weatherEventDuration := 0, calls := calls st + 2\<rparr>)"
    by (simp add: st1_def)
  show ?thesis
    using mem during full step' st1(1) by (intro exI [of _ e]) simp
qed

section \<open>The generators\<close>

lemma outlierTypes_nth:
  "outlierTypes ! 0 = negative_reading"
  "outlierTypes ! Suc 0 = zero_reading"
  "outlierTypes ! 2 = extremely_high"
  "outlierTypes ! 3 = minor_negative"
  "outlierTypes ! 4 = unrealistic_spike"
  "length outlierTypes = 5"
  by (simp_all add: outlierTypes_def)

lemma generator_negative_reading:
  assumes "0 \<le> R" and "valid_draw u"
  shows "- (real_of_int R / 2) \<le> round2 (generator negative_reading R u)
       \<and> round2 (generator negative_reading R u) \<le> 0"
proof -
  from assms have u: "0 \<le> u" "u \<le> 1" by (simp_all add: valid_draw_def)
  have R: "0 \<le> real_of_int R" using assms(1) by simp
  have "0 \<le> u * real_of_int R" using u R by simp
  moreover have "u * real_of_int R \<le> 1 * real_of_int R"
    using u R by (intro mult_right_mono) simp_all
  ultimately have "real_of_int (- 50 * R) / 100 \<le> generator negative_reading R u"
    "generator negative_reading R u \<le> real_of_int 0 / 100"
    by simp_all
  from round2_bounds [OF this] show ?thesis by simp
qed

lemma generator_extremely_high:
  assumes "0 \<le> R" and "valid_draw u"
  shows "2 * real_of_int R \<le> round2 (generator extremely_high R u)
       \<and> round2 (generator extremely_high R u) \<le> 5 * real_of_int R"
proof -
  from assms have u: "0 \<le> u" "u \<le> 1" by (simp_all add: valid_draw_def)
  have R: "0 \<le> real_of_int R" using assms(1) by simp
  have "0 \<le> real_of_int R * u" using u R by simp
  moreover have "real_of_int R * u \<le> real_of_int R * 1"
    using u R by (intro mult_left_mono) simp_all
  ultimately have "real_of_int (200 * R) / 100 \<le> generator extremely_high R u"
    "generator extremely_high R u \<le> real_of_int (500 * R) / 100"
    by (simp_all add: algebra_simps)
  from round2_bounds [OF this] show ?thesis by simp
qed

lemma generator_minor_negative:
  assumes "valid_draw u"
  shows "- 50 \<le> round2 (generator minor_negative R u)
       \<and> round2 (generator minor_negative R u) \<le> 0"
proof -
  from assms have u: "0 \<le> u" "u \<le> 1" by (simp_all add: valid_draw_def)
  then have "real_of_int (- 5000) / 100 \<le> generator minor_negative R u"
    "generator minor_negative R u \<le> real_of_int 0 / 100"
    by simp_all
  from round2_bounds [OF this] show ?thesis by simp
qed

lemma generator_unrealistic_spike:
  assumes "0 \<le> R" and "valid_draw u"
  shows "1.5 * real_of_int R \<le> round2 (generator unrealistic_spike R u)
       \<and> round2 (generator unrealistic_spike R u) \<le> 3.5 * real_of_int R"
proof -
  from assms have u: "0 \<le> u" "u \<le> 1" by (simp_all add: valid_draw_def)
  have R: "0 \<le> real_of_int R" using assms(1) by simp
  have "0 \<le> real_of_int R * u" using u R by simp
  moreover have "real_of_int R * u \<le> real_of_int R * 1"
    using u R by (intro mult_left_mono) simp_all
  ultimately have "real_of_int (150 * R) / 100 \<le> generator unrealistic_spike R u"
    "generator unrealistic_spike R u \<le> real_of_int (350 * R) / 100"
    by (simp_all add: algebra_simps)
  from round2_bounds [OF this] show ?thesis by simp
qed

lemma round2_zero: "round2 0 = 0"
  by (simp add: round2_def Math_round_def)

lemma generateOutlierReading_fields:
  "outlier (fst (generateOutlierReading rnd st t ts))"
  "outlierType (fst (generateOutlierReading rnd st t ts)) =
     Some (outlierTypes ! nat (Math_floor (rnd (calls st) * 5)))"
  "powerKW (fst (generateOutlierReading rnd st t ts)) =
     round2 (generator (outlierTypes ! nat (Math_floor (rnd (calls st) * 5)))
               (ratedCapacityKW t) (rnd (calls st + 1)))"
  by (simp_all add: generateOutlierReading_def Let_def outlierTypes_nth(6))

lemmas sim_eval = generateBatch.simps generatePowerOutput_def simulateWeatherEvents_def
  maybeStartEvent_def getTimeBasedWindFactor_def round2_def Math_round_def Let_def

lemma faker_mid_in_range: "faker_in_range faker_mid"
  unfolding faker_in_range_def faker_mid_def by (simp add: field_simps)

lemma normal_at_noon:
  "\<not> outlier (fst (generatePowerOutput (\<lambda>n. 1 / 2) 5 12 initial_state t1000 noon))"
  by (simp add: generatePowerOutput_def initial_state_def split_beta Let_def)

section \<open>The routes\<close>

lemmas request_eval = get_power_output_def normalizeQueryParams_def toLowerCase_def
  lower_char_def parseInt_def digit_value_def is_space_def trim_def two_turbine_query_def
  Let_def

lemma accepted_not_null: "r \<noteq> JNull \<Longrightarrow> \<exists>v. accepted r = Inr v"
  by (cases r) (auto simp: accepted_def split: option.splits json.splits)

lemma well_formed_object:
  "well_formed (JObject ms) \<longleftrightarrow>
     truthy (map_of ms ''windTurbineId'') \<and> (\<exists>x. map_of ms ''powerKW'' = Some (JNumber x))"
  by (auto simp: well_formed_def accepted_def split: option.splits json.splits)

lemma saveReadings_all:
  assumes "\<forall>r \<in> set rs. r \<noteq> JNull" and "\<forall>row \<in> set (rows_of now rs). \<not> rejects row"
  shows "saveReadings rejects now rs n db =
           (Inr (n + length (filter well_formed rs)),
            db\<lparr>powerOutputs := powerOutputs db @ rows_of now rs\<rparr>)"
  using assms
proof (induction rs arbitrary: n db)
  case Nil
  then show ?case by (simp add: rows_of_def)
next
  case (Cons r rs)
  from Cons.prems(1) obtain v where v: "accepted r = Inr v"
    using accepted_not_null [of r] by auto
  have rest: "\<forall>r \<in> set rs. r \<noteq> JNull" "\<forall>row \<in> set (rows_of now rs). \<not> rejects row"
    using Cons.prems by (auto simp: rows_of_def)
  show ?case
  proof (cases v)
    case None
    then show ?thesis
      using v Cons.IH [OF rest] by (simp add: well_formed_def rows_of_def)
  next
    case (Some p)
    obtain tid x where p: "p = (tid, x)" by (cases p)
    have "\<not> rejects (row_of now r tid x)"
      using Cons.prems(2) v Some p by (simp add: rows_of_def)
    then show ?thesis
      using v Some p Cons.IH [OF rest, of "n + 1" "db\<lparr>powerOutputs := powerOutputs db @ [row_of now r tid x]\<rparr>"]
      by (simp add: well_formed_def rows_of_def create_def)
  qed
qed

text \<open>
  Without \<open>null\<close> elements, and with a store that accepts the rows, the batch route saves
  exactly the readings its test keeps and reports their number and the length of the array.
\<close>

lemma post_batch_skips_malformed:
  assumes "get_prop body ''readings'' = Inr (Some (JArray rs))"
    and "\<forall>r \<in> set rs. r \<noteq> JNull"
    and "\<forall>row \<in> set (rows_of now rs). \<not> rejects row"
  shows "post_batch rejects now body db =
           (Created201 (length (filter well_formed rs)) (length rs),
            db\<lparr>powerOutputs := powerOutputs db @ rows_of now rs\<rparr>)"
  using assms(1) saveReadings_all [OF assms(2,3), of 0 db]
  by (simp add: post_batch_def)

text \<open>The blank-identifier branch of the stream route throws after the stream headers.\<close>

lemma blank_ids_throw:
  "get_power_output ''c1'' noon [(''windTurbineIds'', QString '' , '')] Map.empty =
     (Head200_Throws HeadersSentError, Map.empty)"
  by (simp add: get_power_output_def normalizeQueryParams_def toLowerCase_def lower_char_def
      trim_def is_space_def Let_def)

lemma validateLimit_25: "validateLimit (Some 25) DEFAULT_LIMIT = 25"
  by (simp add: validateLimit_def DEFAULT_LIMIT_def MAX_LIMIT_def MIN_LIMIT_def)

lemma generateAndSave_entries:
  assumes "generateAndSave fk rejects ts turbines k db = (Inr entries, k1, db1)"
  shows "map pe_turbineId entries = map turbine_id turbines
       \<and> map po_windTurbineId (powerOutputs db1) =
           map po_windTurbineId (powerOutputs db) @ map (\<lambda>t. JString (turbine_id t)) turbines"
  using assms
proof (induction turbines arbitrary: k db entries k1 db1)
  case Nil
  then show ?case by simp
next
  case (Cons t rest)
  obtain powerData k' where g:
    "dg_generatePowerOutput fk k (turbine_id t) (ratedCapacityKW t) ts = (powerData, k')"
    by (cases "dg_generatePowerOutput fk k (turbine_id t) (ratedCapacityKW t) ts")
  have tid: "pd_windTurbineId powerData = turbine_id t"
    using g by (auto simp: dg_generatePowerOutput_def Let_def)
  define row where "row = \<lparr>po_windTurbineId = JString (pd_windTurbineId powerData),
                 po_powerKW = pd_powerKW powerData,
                 po_timestamp = DateObj (pd_timestamp powerData)\<rparr>"
  from Cons.prems g obtain db' where c: "create rejects row db = Inr db'"
    by (auto simp: Let_def row_def split: sum.splits)
  then have db': "db' = db\<lparr>powerOutputs := powerOutputs db @ [row]\<rparr>"
    by (auto simp: create_def split: if_splits)
  from Cons.prems g c obtain entries' where
    r: "generateAndSave fk rejects ts rest k' db' = (Inr entries', k1, db1)"
    and e: "pe_turbineId (hd entries) = turbine_id t" "tl entries = entries'" "entries \<noteq> []"
    by (auto simp: Let_def row_def split: sum.splits prod.splits)
  from Cons.IH [OF r] e db' tid show ?case
    by (cases entries) (auto simp: row_def)
qed

lemma generateAndSave_total:
  "\<exists>entries k1 db1.
      generateAndSave fk (\<lambda>row. False) ts turbines k db = (Inr entries, k1, db1)"
proof (induction turbines arbitrary: k db)
  case Nil
  then show ?case by simp
next
  case (Cons t rest)
  obtain powerData k' where g:
    "dg_generatePowerOutput fk k (turbine_id t) (ratedCapacityKW t) ts = (powerData, k')"
    by (cases "dg_generatePowerOutput fk k (turbine_id t) (ratedCapacityKW t) ts")
  define db' where "db' = db\<lparr>powerOutputs := powerOutputs db @
     [\<lparr>po_windTurbineId = JString (pd_windTurbineId powerData),
                 po_powerKW = pd_powerKW powerData,
                 po_timestamp = DateObj (pd_timestamp powerData)\<rparr>]\<rparr>"
  from Cons.IH [of k' db'] obtain entries k1 db1 where
    "generateAndSave fk (\<lambda>row. False) ts rest k' db' = (Inr entries, k1, db1)" by blast
  then show ?case using g by (simp add: create_def db'_def)
qed

lemma fleet_active: "t \<in> set (fleet n) \<Longrightarrow> active t"
  by (auto simp: fleet_def)

lemma fleet_length: "length (fleet n) = n"
  by (simp add: fleet_def)

lemma fleet_take: "m \<le> n \<Longrightarrow> take m (fleet n) = fleet m"
  by (simp add: fleet_def take_map min_def)

lemma fleet_all_match:
  "filter (\<lambda>t. active t \<and> turbine_id t \<in> set (map turbine_id (fleet n))) (fleet n) = fleet n"
  unfolding filter_id_conv set_map using fleet_active by blast

section \<open>The driver loop\<close>

lemma process_batches_shape:
  "filter is_timeout (fst (process_batches rnd chance clock send_ok i batches st)) = []
 \<and> length (filter is_send (fst (process_batches rnd chance clock send_ok i batches st)))
     = length batches
 \<and> length (filter (\<lambda>a. a = ConsoleError ''Error sending batch:'')
             (fst (process_batches rnd chance clock send_ok i batches st)))
     = length (filter (\<lambda>j. \<not> send_ok j) [i ..< i + length batches])"
proof (induction batches arbitrary: i st)
  case Nil
  then show ?case by simp
next
  case (Cons batch rest)
  obtain readings st1 where g:
    "generateBatch rnd chance (getHours (clock i)) st batch (clock i) = (readings, st1)"
    by (cases "generateBatch rnd chance (getHours (clock i)) st batch (clock i)")
  have u: "[i ..< i + length (batch # rest)] = i # [i + 1 ..< (i + 1) + length rest]"
    by (subst upt_rec) simp
  show ?case
    unfolding u using Cons.IH [of "i + 1" st1] g
    by (simp add: split_beta Let_def)
qed

lemma slice_batches_single: "slice_batches [t] = [[t]]"
  by (subst slice_batches.simps, subst slice_batches.simps) (simp add: BATCH_SIZE_def)

section \<open>Claims\<close>

text \<open>
  Claim C1. For a turbine of rated capacity \<open>R \<ge> 0\<close>, every reading that is not an
  outlier has \<open>0 \<le> powerKW \<le> 1.2 R\<close> and \<open>powerKW\<close> is a multiple of \<open>0.01\<close>, on
  both paths: the simulator's \<open>generatePowerOutput\<close> (whatever the weather state, the
  clock and the draws) and the data generator's \<open>generatePowerOutput\<close> used by the SSE
  route (whatever the faker returns), which never produces an outlier.
\<close>

theorem C1_power_bounds:
  assumes "0 \<le> ratedCapacityKW t" and "0 \<le> R"
  shows "(\<not> outlier (fst (generatePowerOutput rnd chance h st t ts)) \<longrightarrow>
            0 \<le> powerKW (fst (generatePowerOutput rnd chance h st t ts))
          \<and> powerKW (fst (generatePowerOutput rnd chance h st t ts))
              \<le> 1.2 * real_of_int (ratedCapacityKW t)
          \<and> (\<exists>n::int. powerKW (fst (generatePowerOutput rnd chance h st t ts))
                = real_of_int n / 100))
       \<and> 0 \<le> pd_powerKW (fst (dg_generatePowerOutput fk k tid R ts))
       \<and> pd_powerKW (fst (dg_generatePowerOutput fk k tid R ts)) \<le> 1.2 * real_of_int R
       \<and> (\<exists>n::int. pd_powerKW (fst (dg_generatePowerOutput fk k tid R ts))
             = real_of_int n / 100)"
proof -
  have sim: "0 \<le> powerKW (fst (generatePowerOutput rnd chance h st t ts))
          \<and> powerKW (fst (generatePowerOutput rnd chance h st t ts))
              \<le> 1.2 * real_of_int (ratedCapacityKW t)
          \<and> (\<exists>n::int. powerKW (fst (generatePowerOutput rnd chance h st t ts))
                = real_of_int n / 100)"
    if "\<not> outlier (fst (generatePowerOutput rnd chance h st t ts))"
  proof -
    from generatePowerOutput_normal [OF that] obtain p where
      "powerKW (fst (generatePowerOutput rnd chance h st t ts)) =
         round2 (max 0 (min p (real_of_int (ratedCapacityKW t) * 1.2)))" ..
    then show ?thesis
      using clamp_round2 [OF assms(1), of p] round2_two_decimals by simp
  qed
  have dg: "pd_powerKW (fst (dg_generatePowerOutput fk k tid R ts)) =
      round2 (max 0 (min (real_of_int R * windStrengthFactor fk k (getHours ts)
                           * fk (k + 1) 0.8 1.2 * fk (k + 2) 0.85 1.15)
                         (real_of_int R * 1.2)))"
    by (simp add: dg_generatePowerOutput_def Let_def)
  show ?thesis
    using sim clamp_round2 [OF assms(2)] round2_two_decimals unfolding dg by blast
qed

theorem C1_witness:
  "0 \<le> ratedCapacityKW t1000 \<and> (0::int) \<le> 1000
   \<and> \<not> outlier (fst (generatePowerOutput (\<lambda>n. 1/2) 5 12 initial_state t1000 noon))
   \<and> powerKW (fst (generatePowerOutput (\<lambda>n. 1/2) 5 12 initial_state t1000 noon)) = 600
   \<and> powerKW (fst (generatePowerOutput (\<lambda>n. 1/2) 5 12 initial_state t1000 noon)) \<le> 1.2 * real_of_int (ratedCapacityKW t1000)
   \<and> pd_powerKW (fst (dg_generatePowerOutput (\<lambda>n lo hi. hi) 0 ''T1'' 1000 noon)) \<le> 1.2 * real_of_int 1000"
  using C1_power_bounds [of t1000 1000 "\<lambda>n. 1/2" 5 12 initial_state noon "\<lambda>n lo hi. hi" 0 "''T1''"]
  by (simp add: t1000_def noon_def initial_state_def generatePowerOutput_def
      simulateWeatherEvents_def maybeStartEvent_def getTimeBasedWindFactor_def round2_def
      Math_round_def Let_def)

text \<open>
  Claim C2. The simulator calls \<open>simulateWeatherEvents\<close> inside \<open>generatePowerOutput\<close>, once
  for every reading that is not an outlier, not once for the cycle. With outliers disabled,
  all draws equal to \<open>1/2\<close> and a storm in its last cycle, a batch of two turbines yields
  one reading with weather factor \<open>0.2\<close> and one with \<open>1.0\<close>; a storm with five cycles left
  has two left after one batch of three turbines.
\<close>

theorem C2_tick_per_turbine:
  "map powerKW (fst (generateBatch (\<lambda>n. 1 / 2) 0 12 storm_ending [t1000, t2000] noon))
     = [1000 * 0.6 * 0.2, 2000 * 0.6 * 1]
   \<and> weatherEvent (snd (generateBatch (\<lambda>n. 1 / 2) 0 12 storm_ending [t1000, t2000] noon)) = None
   \<and> weatherEventDuration storm_started = 5
   \<and> weatherEventDuration
        (snd (generateBatch (\<lambda>n. 1 / 2) 0 12 storm_started [t1000, t2000, t1000] noon)) = 2"
  by (simp add: sim_eval storm_ending_def storm_started_def t1000_def t2000_def noon_def)

text \<open>
  Claim C3. One call of \<open>simulateWeatherEvents\<close>. With no event active and a Bernoulli
  draw of at least \<open>0.05\<close> it returns \<open>1.0\<close> and changes nothing but the draw count. With no
  event active and a draw below \<open>0.05\<close> (an interval of length \<open>0.05\<close> of the unit interval)
  it starts the event number \<open>k\<close> of the table, where \<open>k\<close> is the third of the unit interval
  the second draw falls in, so the three kinds are equally likely; the same call already
  counts as the event's first cycle. With an event active it returns the event's factor,
  decrements the counter and clears the event when the counter reaches zero, so the factor
  of the ending event is what the last cycle returns. The table is storm \<open>(0.2, 5)\<close>,
  high pressure \<open>(1.5, 10)\<close>, maintenance window \<open>(0, 3)\<close>.
\<close>

theorem C3_tick:
  "(weatherEvent st = None \<and> \<not> rnd (calls st) < 0.05 \<longrightarrow>
      simulateWeatherEvents rnd st = (1, st\<lparr>calls := calls st + 1\<rparr>))
 \<and> (weatherEvent st = None \<and> rnd (calls st) < 0.05 \<and> valid_draw (rnd (calls st + 1)) \<longrightarrow>
      (\<exists>k<3. real k / 3 \<le> rnd (calls st + 1) \<and> rnd (calls st + 1) < (real k + 1) / 3
         \<and> simulateWeatherEvents rnd st =
               (factor (events ! k),
                st\<lparr>weatherEvent := Some (events ! k),
                    weatherEventDuration := duration (events ! k) - 1,
                    calls := calls st + 2\<rparr>)))
 \<and> (weatherEvent st = Some e \<longrightarrow>
      simulateWeatherEvents rnd st =
        (factor e,
         st\<lparr>weatherEventDuration := weatherEventDuration st - 1,
             weatherEvent := (if weatherEventDuration st - 1 \<le> 0 then None else Some e)\<rparr>))
 \<and> map (\<lambda>e. (etype e, factor e, duration e)) events =
       [(storm, 0.2, 5), (high_pressure, 1.5, 10), (maintenance_window, 0, 3)]"
  using simulateWeatherEvents_quiet [of st rnd] simulateWeatherEvents_spawn [of st rnd]
    simulateWeatherEvents_active [of st e rnd]
  by (simp add: events_def)

theorem C3_witness:
  "weatherEvent initial_state = None \<and> \<not> (\<lambda>n. 1 / 2 :: real) (calls initial_state) < 0.05
   \<and> simulateWeatherEvents (\<lambda>n. 1 / 2) initial_state = (1, initial_state\<lparr>calls := 1\<rparr>)
   \<and> spawning_rnd (calls initial_state) < 0.05
   \<and> valid_draw (spawning_rnd (calls initial_state + 1))
   \<and> simulateWeatherEvents spawning_rnd initial_state =
        (1.5, \<lparr>weatherEvent = Some \<lparr>etype = high_pressure, factor = 1.5, duration = 10\<rparr>,
               weatherEventDuration = 9, calls = 2\<rparr>)
   \<and> weatherEvent storm_ending = Some \<lparr>etype = storm, factor = 0.2, duration = 5\<rparr>
   \<and> simulateWeatherEvents (\<lambda>n. 1 / 2) storm_ending =
        (0.2, \<lparr>weatherEvent = None, weatherEventDuration = 0, calls = 0\<rparr>)"
  using C3_tick [of initial_state "\<lambda>n. 1 / 2"] C3_tick [of initial_state spawning_rnd]
    C3_tick [of storm_ending "\<lambda>n. 1 / 2" "\<lparr>etype = storm, factor = 0.2, duration = 5\<rparr>"]
  by (simp add: initial_state_def storm_ending_def spawning_rnd_def valid_draw_def
      simulateWeatherEvents_def maybeStartEvent_def events_def Math_floor_def Let_def)

text \<open>
  Claim C4. The state holds one event slot, and a call made while an event is active never
  replaces it: the slot afterwards holds the same event or none, and no spawning draw is
  made. An event spawned by a call lasts exactly its \<open>duration\<close> calls, the spawning call
  included: each of them returns the event's factor, the event is still active after each
  but the last, and after the last no event is active; the next call returns \<open>1.0\<close>, unless
  its own Bernoulli draw starts a new event.
\<close>

theorem C4_single_event_and_expiry:
  "(weatherEvent st = Some e \<longrightarrow>
      (weatherEvent (snd (simulateWeatherEvents rnd st)) = Some e
         \<or> weatherEvent (snd (simulateWeatherEvents rnd st)) = None)
      \<and> calls (snd (simulateWeatherEvents rnd st)) = calls st)
 \<and> (weatherEvent st = None \<and> rnd (calls st) < 0.05 \<and> valid_draw (rnd (calls st + 1)) \<longrightarrow>
      (\<exists>e'. e' \<in> set events
         \<and> weatherEvent (snd (simulateWeatherEvents rnd st)) = Some e'
         \<and> (\<forall>m. 0 < m \<and> m < nat (duration e') \<longrightarrow>
                weatherEvent (snd (ticks rnd m st)) = Some e')
         \<and> fst (ticks rnd (nat (duration e')) st) = replicate (nat (duration e')) (factor e')
         \<and> weatherEvent (snd (ticks rnd (nat (duration e')) st)) = None
         \<and> (\<not> rnd (calls st + 2) < 0.05 \<longrightarrow>
               fst (simulateWeatherEvents rnd (snd (ticks rnd (nat (duration e')) st))) = 1)))"
proof -
  have one: "(weatherEvent (snd (simulateWeatherEvents rnd st)) = Some e
         \<or> weatherEvent (snd (simulateWeatherEvents rnd st)) = None)
      \<and> calls (snd (simulateWeatherEvents rnd st)) = calls st"
    if "weatherEvent st = Some e"
    by (simp add: simulateWeatherEvents_active [OF that])
  have two: "\<exists>e'. e' \<in> set events
         \<and> weatherEvent (snd (simulateWeatherEvents rnd st)) = Some e'
         \<and> (\<forall>m. 0 < m \<and> m < nat (duration e') \<longrightarrow>
                weatherEvent (snd (ticks rnd m st)) = Some e')
         \<and> fst (ticks rnd (nat (duration e')) st) = replicate (nat (duration e')) (factor e')
         \<and> weatherEvent (snd (ticks rnd (nat (duration e')) st)) = None
         \<and> (\<not> rnd (calls st + 2) < 0.05 \<longrightarrow>
               fst (simulateWeatherEvents rnd (snd (ticks rnd (nat (duration e')) st))) = 1)"
    if h: "weatherEvent st = None \<and> rnd (calls st) < 0.05 \<and> valid_draw (rnd (calls st + 1))"
  proof -
    from h spawned_event_runs_its_duration [of st rnd] obtain e' where e':
      "e' \<in> set events" "weatherEvent (snd (simulateWeatherEvents rnd st)) = Some e'"
      "\<forall>m. 0 < m \<and> m < nat (duration e') \<longrightarrow> weatherEvent (snd (ticks rnd m st)) = Some e'"
      "ticks rnd (nat (duration e')) st =
              (replicate (nat (duration e')) (factor e'),
               st\<lparr>weatherEvent := None, weatherEventDuration := 0, calls := calls st + 2\<rparr>)"
      by blast
    have "fst (simulateWeatherEvents rnd (snd (ticks rnd (nat (duration e')) st))) = 1"
      if "\<not> rnd (calls st + 2) < 0.05"
      unfolding e'(4) using that by (simp add: simulateWeatherEvents_quiet)
    with e' show ?thesis by (intro exI [of _ e']) simp
  qed
  show ?thesis using one two by blast
qed

theorem C4_witness:
  "weatherEvent storm_ending = Some \<lparr>etype = storm, factor = 0.2, duration = 5\<rparr>
   \<and> weatherEvent (snd (simulateWeatherEvents (\<lambda>n. 1 / 2) storm_ending)) = None
   \<and> weatherEvent initial_state = None \<and> spawning_rnd (calls initial_state) < 0.05
   \<and> valid_draw (spawning_rnd (calls initial_state + 1))
   \<and> \<not> spawning_rnd (calls initial_state + 2) < 0.05
   \<and> weatherEvent (snd (ticks spawning_rnd 9 initial_state))
        = Some \<lparr>etype = high_pressure, factor = 1.5, duration = 10\<rparr>
   \<and> ticks spawning_rnd 10 initial_state =
        (replicate 10 1.5, \<lparr>weatherEvent = None, weatherEventDuration = 0, calls = 2\<rparr>)
   \<and> fst (simulateWeatherEvents spawning_rnd (snd (ticks spawning_rnd 10 initial_state))) = 1"
  using C4_single_event_and_expiry
      [of storm_ending "\<lparr>etype = storm, factor = 0.2, duration = 5\<rparr>" "\<lambda>n. 1 / 2"]
    C4_single_event_and_expiry [of initial_state _ spawning_rnd]
  by (simp add: initial_state_def storm_ending_def spawning_rnd_def valid_draw_def
      simulateWeatherEvents_def maybeStartEvent_def events_def Math_floor_def Let_def
      eval_nat_numeral)

text \<open>
  Claim C5. \<open>generateOutlierReading\<close> for a turbine of rated capacity \<open>R \<ge> 0\<close>: the result
  is flagged as an outlier and tagged with the shape selected, shape \<open>k\<close> of the five distinct
  shapes being selected exactly when the first draw falls in the \<open>k\<close>-th fifth of the unit
  interval. A \<open>zero_reading\<close> has power \<open>0\<close>, an \<open>extremely_high\<close> one lies in \<open>[2R, 5R]\<close>, a
  \<open>negative_reading\<close> is non-positive of magnitude at most \<open>0.5 R\<close>, a \<open>minor_negative\<close> lies
  in \<open>[-50, 0]\<close> and an \<open>unrealistic_spike\<close> in \<open>[1.5 R, 3.5 R]\<close>.
\<close>

theorem C5_outlier_shapes:
  assumes "0 \<le> ratedCapacityKW t" and "valid_draw (rnd (calls st))"
    and "valid_draw (rnd (calls st + 1))"
  shows "outlier (fst (generateOutlierReading rnd st t ts))
   \<and> (\<exists>k<5. outlierType (fst (generateOutlierReading rnd st t ts)) = Some (outlierTypes ! k)
          \<and> real k / 5 \<le> rnd (calls st) \<and> rnd (calls st) < (real k + 1) / 5)
   \<and> length outlierTypes = 5 \<and> distinct outlierTypes
   \<and> (outlierType (fst (generateOutlierReading rnd st t ts)) = Some zero_reading \<longrightarrow>
        powerKW (fst (generateOutlierReading rnd st t ts)) = 0)
   \<and> (outlierType (fst (generateOutlierReading rnd st t ts)) = Some extremely_high \<longrightarrow>
        2 * real_of_int (ratedCapacityKW t) \<le> powerKW (fst (generateOutlierReading rnd st t ts))
      \<and> powerKW (fst (generateOutlierReading rnd st t ts)) \<le> 5 * real_of_int (ratedCapacityKW t))
   \<and> (outlierType (fst (generateOutlierReading rnd st t ts)) = Some negative_reading \<longrightarrow>
        \<bar>powerKW (fst (generateOutlierReading rnd st t ts))\<bar>
          \<le> 0.5 * real_of_int (ratedCapacityKW t)
      \<and> powerKW (fst (generateOutlierReading rnd st t ts)) \<le> 0)
   \<and> (outlierType (fst (generateOutlierReading rnd st t ts)) = Some minor_negative \<longrightarrow>
        - 50 \<le> powerKW (fst (generateOutlierReading rnd st t ts))
      \<and> powerKW (fst (generateOutlierReading rnd st t ts)) \<le> 0)
   \<and> (outlierType (fst (generateOutlierReading rnd st t ts)) = Some unrealistic_spike \<longrightarrow>
        1.5 * real_of_int (ratedCapacityKW t) \<le> powerKW (fst (generateOutlierReading rnd st t ts))
      \<and> powerKW (fst (generateOutlierReading rnd st t ts))
          \<le> 3.5 * real_of_int (ratedCapacityKW t))"
proof -
  from floor_scaled_draw [OF assms(2), of 5] obtain k where k: "k < 5"
    "Math_floor (rnd (calls st) * 5) = int k"
    "real k / 5 \<le> rnd (calls st)" "rnd (calls st) < (real k + 1) / 5"
    by auto
  have sel: "outlierType (fst (generateOutlierReading rnd st t ts)) = Some (outlierTypes ! k)"
    using k(2) by (simp add: generateOutlierReading_fields)
  have pw: "powerKW (fst (generateOutlierReading rnd st t ts)) =
     round2 (generator (outlierTypes ! k) (ratedCapacityKW t) (rnd (calls st + 1)))"
    using k(2) by (simp add: generateOutlierReading_fields)
  have pick: "\<exists>k<5. outlierType (fst (generateOutlierReading rnd st t ts)) = Some (outlierTypes ! k)
          \<and> real k / 5 \<le> rnd (calls st) \<and> rnd (calls st) < (real k + 1) / 5"
    using k sel by blast
  have shape: "powerKW (fst (generateOutlierReading rnd st t ts)) = round2 (generator ty (ratedCapacityKW t) (rnd (calls st + 1)))"
    if "outlierType (fst (generateOutlierReading rnd st t ts)) = Some ty" for ty
    using that sel pw by simp
  show ?thesis
    using pick shape [of zero_reading] shape [of extremely_high] shape [of negative_reading]
      shape [of minor_negative] shape [of unrealistic_spike]
      generator_negative_reading [OF assms(1,3)] generator_extremely_high [OF assms(1,3)]
      generator_minor_negative [OF assms(3), of "ratedCapacityKW t"]
      generator_unrealistic_spike [OF assms(1,3)]
    by (simp add: generateOutlierReading_fields(1) outlierTypes_def round2_zero)
qed

theorem C5_witness:
  "0 \<le> ratedCapacityKW t1000 \<and> valid_draw (1 / 10) \<and> valid_draw (3 / 10)
   \<and> valid_draw (1 / 2) \<and> valid_draw (7 / 10) \<and> valid_draw (9 / 10)
   \<and> outlierType (fst (generateOutlierReading (\<lambda>n. 1 / 10) initial_state t1000 noon))
        = Some negative_reading
   \<and> powerKW (fst (generateOutlierReading (\<lambda>n. 1 / 10) initial_state t1000 noon)) = - 50
   \<and> outlierType (fst (generateOutlierReading (\<lambda>n. 3 / 10) initial_state t1000 noon))
        = Some zero_reading
   \<and> powerKW (fst (generateOutlierReading (\<lambda>n. 3 / 10) initial_state t1000 noon)) = 0
   \<and> outlierType (fst (generateOutlierReading (\<lambda>n. 1 / 2) initial_state t1000 noon))
        = Some extremely_high
   \<and> powerKW (fst (generateOutlierReading (\<lambda>n. 1 / 2) initial_state t1000 noon)) = 3500
   \<and> outlierType (fst (generateOutlierReading (\<lambda>n. 7 / 10) initial_state t1000 noon))
        = Some minor_negative
   \<and> powerKW (fst (generateOutlierReading (\<lambda>n. 7 / 10) initial_state t1000 noon)) = - 35
   \<and> outlierType (fst (generateOutlierReading (\<lambda>n. 9 / 10) initial_state t1000 noon))
        = Some unrealistic_spike
   \<and> powerKW (fst (generateOutlierReading (\<lambda>n. 9 / 10) initial_state t1000 noon)) = 3300"
  using C5_outlier_shapes [of t1000 "\<lambda>n. 1 / 10" initial_state noon]
    C5_outlier_shapes [of t1000 "\<lambda>n. 3 / 10" initial_state noon]
    C5_outlier_shapes [of t1000 "\<lambda>n. 1 / 2" initial_state noon]
    C5_outlier_shapes [of t1000 "\<lambda>n. 7 / 10" initial_state noon]
    C5_outlier_shapes [of t1000 "\<lambda>n. 9 / 10" initial_state noon]
  by (simp add: t1000_def noon_def initial_state_def valid_draw_def generateOutlierReading_def
      outlierTypes_def Math_floor_def round2_def Math_round_def Let_def)

text \<open>
  Claim C6 fails on the data generator used by the SSE route: at hour 23 its time factor
  is whatever the faker draws between \<open>0.7\<close> and \<open>1.0\<close>, here \<open>0.7\<close> for one faker and
  \<open>1.0\<close> for another, never \<open>1.2\<close>, and the reading differs from the one a factor of
  \<open>1.2\<close> would give.
\<close>

theorem C6_counterexample:
  "getHours night = 23 \<and> faker_in_range faker_min \<and> faker_in_range faker_max
   \<and> windStrengthFactor faker_min 0 (getHours night) = 0.7
   \<and> windStrengthFactor faker_max 0 (getHours night) = 1
   \<and> windStrengthFactor faker_min 0 (getHours night) \<noteq> 1.2
   \<and> windStrengthFactor faker_max 0 (getHours night) \<noteq> 1.2
   \<and> pd_powerKW (fst (dg_generatePowerOutput faker_min 0 ''T1'' 1000 night))
       = 1000 * 0.7 * 0.8 * 0.85
   \<and> pd_powerKW (fst (dg_generatePowerOutput faker_min 0 ''T1'' 1000 night))
       \<noteq> round2 (max 0 (min (1000 * 1.2 * 0.8 * 0.85) (1000 * 1.2)))"
  by (simp add: night_def faker_in_range_def faker_min_def faker_max_def windStrengthFactor_def
      dg_generatePowerOutput_def round2_def Math_round_def Let_def)

text \<open>
  Claim C6, amended. In the simulator the time factor is \<open>1.2\<close> when the hour of the wall
  clock is 22, 23 or 0 to 6, \<open>0.6\<close> when it is 10 to 16 and \<open>0.9\<close> otherwise, and a reading
  that is not an outlier is the rated capacity times this factor, the weather factor, the
  variation and the efficiency, clamped and rounded. In the data generator the factor is a
  draw of the faker, which for a faker that respects its bounds lies in \<open>[0.7, 1.0]\<close>,
  \<open>[0.3, 0.7]\<close> and \<open>[0.5, 0.9]\<close> for the same three bands of the timestamp's hour.
\<close>

theorem C6_time_factor:
  "(h \<ge> 22 \<or> h \<le> 6 \<longrightarrow> getTimeBasedWindFactor h = 1.2)
 \<and> (10 \<le> h \<and> h \<le> 16 \<longrightarrow> getTimeBasedWindFactor h = 0.6)
 \<and> (6 < h \<and> h < 10 \<or> 16 < h \<and> h < 22 \<longrightarrow> getTimeBasedWindFactor h = 0.9)
 \<and> (\<not> outlier (fst (generatePowerOutput rnd chance h st t ts)) \<longrightarrow>
      (let st0 = (if chance > 0 then st\<lparr>calls := calls st + 1\<rparr> else st);
           w = fst (simulateWeatherEvents rnd st0);
           c = calls (snd (simulateWeatherEvents rnd st0));
           R = real_of_int (ratedCapacityKW t)
       in powerKW (fst (generatePowerOutput rnd chance h st t ts)) =
            round2 (max 0 (min (R * (getTimeBasedWindFactor h * w * (0.8 + rnd c * 0.4))
                                  * (0.85 + rnd (c + 1) * 0.3))
                               (R * 1.2)))))
 \<and> (faker_in_range fk \<longrightarrow>
      (h \<ge> 22 \<or> h \<le> 6 \<longrightarrow>
         0.7 \<le> windStrengthFactor fk k h \<and> windStrengthFactor fk k h \<le> 1.0)
    \<and> (10 \<le> h \<and> h \<le> 16 \<longrightarrow>
         0.3 \<le> windStrengthFactor fk k h \<and> windStrengthFactor fk k h \<le> 0.7)
    \<and> (6 < h \<and> h < 10 \<or> 16 < h \<and> h < 22 \<longrightarrow>
         0.5 \<le> windStrengthFactor fk k h \<and> windStrengthFactor fk k h \<le> 0.9))"
proof -
  have tf: "(h \<ge> 22 \<or> h \<le> 6 \<longrightarrow> getTimeBasedWindFactor h = 1.2)
 \<and> (10 \<le> h \<and> h \<le> 16 \<longrightarrow> getTimeBasedWindFactor h = 0.6)
 \<and> (6 < h \<and> h < 10 \<or> 16 < h \<and> h < 22 \<longrightarrow> getTimeBasedWindFactor h = 0.9)"
    by (auto simp: getTimeBasedWindFactor_def)
  have sim: "\<not> outlier (fst (generatePowerOutput rnd chance h st t ts)) \<longrightarrow>
      (let st0 = (if chance > 0 then st\<lparr>calls := calls st + 1\<rparr> else st);
           w = fst (simulateWeatherEvents rnd st0);
           c = calls (snd (simulateWeatherEvents rnd st0));
           R = real_of_int (ratedCapacityKW t)
       in powerKW (fst (generatePowerOutput rnd chance h st t ts)) =
            round2 (max 0 (min (R * (getTimeBasedWindFactor h * w * (0.8 + rnd c * 0.4))
                                  * (0.85 + rnd (c + 1) * 0.3))
                               (R * 1.2))))"
    by (simp add: generatePowerOutput_def generateOutlierReading_def Let_def split_beta)
  have dg: "(h \<ge> 22 \<or> h \<le> 6 \<longrightarrow>
         0.7 \<le> windStrengthFactor fk k h \<and> windStrengthFactor fk k h \<le> 1.0)
    \<and> (10 \<le> h \<and> h \<le> 16 \<longrightarrow>
         0.3 \<le> windStrengthFactor fk k h \<and> windStrengthFactor fk k h \<le> 0.7)
    \<and> (6 < h \<and> h < 10 \<or> 16 < h \<and> h < 22 \<longrightarrow>
         0.5 \<le> windStrengthFactor fk k h \<and> windStrengthFactor fk k h \<le> 0.9)"
    if "faker_in_range fk"
  proof -
    have r: "lo \<le> fk k lo hi \<and> fk k lo hi \<le> hi" if "lo \<le> hi" for lo hi
      using \<open>faker_in_range fk\<close> that unfolding faker_in_range_def by blast
    show ?thesis
      using r [of "0.7" "1.0"] r [of "0.3" "0.7"] r [of "0.5" "0.9"]
      by (auto simp: windStrengthFactor_def)
  qed
  show ?thesis using tf sim dg by blast
qed

theorem C6_witness:
  "getTimeBasedWindFactor 23 = 1.2 \<and> getTimeBasedWindFactor 3 = 1.2
   \<and> getTimeBasedWindFactor 12 = 0.6 \<and> getTimeBasedWindFactor 8 = 0.9
   \<and> getTimeBasedWindFactor 19 = 0.9
   \<and> \<not> outlier (fst (generatePowerOutput (\<lambda>n. 1 / 2) 5 12 initial_state t1000 noon))
   \<and> powerKW (fst (generatePowerOutput (\<lambda>n. 1 / 2) 5 12 initial_state t1000 noon))
       = 1000 * 0.6
   \<and> faker_in_range faker_mid
   \<and> 0.7 \<le> windStrengthFactor faker_mid 0 23 \<and> windStrengthFactor faker_mid 0 23 \<le> 1
   \<and> 0.3 \<le> windStrengthFactor faker_mid 0 12 \<and> windStrengthFactor faker_mid 0 12 \<le> 0.7
   \<and> 0.5 \<le> windStrengthFactor faker_mid 0 8 \<and> windStrengthFactor faker_mid 0 8 \<le> 0.9"
proof -
  note a = C6_time_factor [of 23 "\<lambda>n. 1 / 2" 5 initial_state t1000 noon faker_mid 0]
  note b = C6_time_factor [of 3 "\<lambda>n. 1 / 2" 5 initial_state t1000 noon faker_mid 0]
  note c = C6_time_factor [of 12 "\<lambda>n. 1 / 2" 5 initial_state t1000 noon faker_mid 0]
  note d = C6_time_factor [of 8 "\<lambda>n. 1 / 2" 5 initial_state t1000 noon faker_mid 0]
  note e = C6_time_factor [of 19 "\<lambda>n. 1 / 2" 5 initial_state t1000 noon faker_mid 0]
  have tf: "getTimeBasedWindFactor 23 = 1.2" "getTimeBasedWindFactor 3 = 1.2"
    "getTimeBasedWindFactor 12 = 0.6" "getTimeBasedWindFactor 8 = 0.9"
    "getTimeBasedWindFactor 19 = 0.9"
    using a [THEN conjunct1] b [THEN conjunct1] c [THEN conjunct2, THEN conjunct1]
      d [THEN conjunct2, THEN conjunct2, THEN conjunct1]
      e [THEN conjunct2, THEN conjunct2, THEN conjunct1]
    by simp_all
  have "powerKW (fst (generatePowerOutput (\<lambda>n. 1 / 2) 5 12 initial_state t1000 noon))
       = round2 (max 0 (min (1000 * (getTimeBasedWindFactor 12 * 1 * (0.8 + 1 / 2 * 0.4))
                                  * (0.85 + 1 / 2 * 0.3)) (1000 * 1.2)))"
    using c [THEN conjunct2, THEN conjunct2, THEN conjunct2, THEN conjunct1] normal_at_noon
    by (simp add: initial_state_def t1000_def simulateWeatherEvents_def maybeStartEvent_def
        Let_def)
  then have pw: "powerKW (fst (generatePowerOutput (\<lambda>n. 1 / 2) 5 12 initial_state t1000 noon))
       = 1000 * 0.6"
    by (simp add: tf round2_def Math_round_def)
  have dg: "0.7 \<le> windStrengthFactor faker_mid 0 23 \<and> windStrengthFactor faker_mid 0 23 \<le> 1"
    "0.3 \<le> windStrengthFactor faker_mid 0 12 \<and> windStrengthFactor faker_mid 0 12 \<le> 0.7"
    "0.5 \<le> windStrengthFactor faker_mid 0 8 \<and> windStrengthFactor faker_mid 0 8 \<le> 0.9"
    using a [THEN conjunct2, THEN conjunct2, THEN conjunct2, THEN conjunct2]
      c [THEN conjunct2, THEN conjunct2, THEN conjunct2, THEN conjunct2]
      d [THEN conjunct2, THEN conjunct2, THEN conjunct2, THEN conjunct2]
      faker_mid_in_range
    by simp_all
  show ?thesis using tf normal_at_noon pw faker_mid_in_range dg by simp
qed

text \<open>
  Claim C7 fails on the interval: a request for two turbines with \<open>interval=500\<close>, outside
  \<open>[1, 300]\<close>, is answered with the \<open>connected\<close> event, and the connection is registered
  with a timer of \<open>500000\<close> ms; \<open>interval=0\<close> is accepted in the same way.
\<close>

theorem C7_counterexample:
  "\<not> (1 \<le> (500 :: int) \<and> (500 :: int) \<le> 300)
   \<and> fst (get_power_output ''c1'' noon (two_turbine_query ''500'') Map.empty) =
       Stream \<lparr>ce_connectionId = ''c1'', ce_interval = Some 500,
               ce_turbineFilter = [''T1'', ''T2''], ce_turbineCount = 2\<rparr>
   \<and> \<not> is_validation_error (fst (get_power_output ''c1'' noon (two_turbine_query ''500'') Map.empty))
   \<and> snd (get_power_output ''c1'' noon (two_turbine_query ''500'') Map.empty) ''c1'' =
       Some \<lparr>conn_turbineFilter = [''T1'', ''T2''], conn_startTime = noon,
             conn_intervalMs = Some 500000\<rparr>
   \<and> fst (get_power_output ''c1'' noon (two_turbine_query ''0'') Map.empty) =
       Stream \<lparr>ce_connectionId = ''c1'', ce_interval = Some 0,
               ce_turbineFilter = [''T1'', ''T2''], ce_turbineCount = 2\<rparr>"
  by (simp add: request_eval)

text \<open>
  Claim C7, amended. When the \<open>windTurbineIds\<close> parameter is absent or empty the handler
  answers with a validation error, and whenever it answers with a validation error no
  connection is registered. For a string with at least one non-blank identifier between
  its commas the stream is opened whatever the \<open>interval\<close> parameter is: the \<open>connected\<close>
  event carries the connection id and the identifiers, the connection is registered under
  that id, and there is no validation error. The interval is never validated, and neither
  is the form of an identifier.
\<close>

theorem C7_subscribe:
  "(requested_ids q = None \<or> requested_ids q = Some (QString []) \<longrightarrow>
      is_validation_error (fst (get_power_output cid now q conns)))
 \<and> (is_validation_error (fst (get_power_output cid now q conns)) \<longrightarrow>
      snd (get_power_output cid now q conns) = conns)
 \<and> (requested_ids q = Some (QString s) \<and> id_list s \<noteq> [] \<longrightarrow>
      (\<exists>ev. fst (get_power_output cid now q conns) = Stream ev
            \<and> ce_connectionId ev = cid \<and> ce_turbineFilter ev = id_list s
            \<and> ce_turbineCount ev = length (id_list s))
      \<and> \<not> is_validation_error (fst (get_power_output cid now q conns))
      \<and> (\<exists>c. snd (get_power_output cid now q conns) = conns(cid \<mapsto> c)
            \<and> conn_turbineFilter c = id_list s))"
proof -
  have empty: "id_list [] = []" by (simp add: id_list_def trim_def)
  show ?thesis
    unfolding requested_ids_def
    by (cases "normalizeQueryParams q [''windTurbineIds'', ''interval''] ''windTurbineIds''")
      (auto simp: get_power_output_def Let_def id_list_def [symmetric] empty
        split: qvalue.splits)
qed

theorem C7_witness:
  "requested_ids [] = None
   \<and> is_validation_error (fst (get_power_output ''c1'' noon [] Map.empty))
   \<and> snd (get_power_output ''c1'' noon [] Map.empty) = Map.empty
   \<and> requested_ids [(''windturbineids'', QString [])] = Some (QString [])
   \<and> is_validation_error
        (fst (get_power_output ''c1'' noon [(''windturbineids'', QString [])] Map.empty))
   \<and> requested_ids (two_turbine_query ''5'') = Some (QString ''T1,T2'')
   \<and> id_list ''T1,T2'' = [''T1'', ''T2'']
   \<and> (\<exists>ev. fst (get_power_output ''c1'' noon (two_turbine_query ''5'') Map.empty) = Stream ev
          \<and> ce_connectionId ev = ''c1'' \<and> ce_turbineCount ev = 2)"
proof -
  have a: "requested_ids [] = None"
    by (simp add: requested_ids_def normalizeQueryParams_def)
  have b: "requested_ids [(''windturbineids'', QString [])] = Some (QString [])"
    by (simp add: requested_ids_def normalizeQueryParams_def toLowerCase_def lower_char_def)
  have d: "requested_ids (two_turbine_query ''5'') = Some (QString ''T1,T2'')"
    by (simp add: requested_ids_def two_turbine_query_def normalizeQueryParams_def
        toLowerCase_def lower_char_def)
  have e: "id_list ''T1,T2'' = [''T1'', ''T2'']"
    by (simp add: id_list_def trim_def is_space_def)
  show ?thesis
    using C7_subscribe [of "[]" "''c1''" noon Map.empty]
      C7_subscribe [of "[(''windturbineids'', QString [])]" "''c1''" noon Map.empty]
      C7_subscribe [of "two_turbine_query ''5''" "''c1''" noon Map.empty "''T1,T2''"]
      a b d e
    by auto
qed

text \<open>
  Claim C8. The loop skips a reading that is an object without a turbine id or without a
  numeric power: on the scenario of the claim the answer is 201 with \<open>savedCount = 1\<close>
  and \<open>totalReceived = 2\<close>. A \<open>null\<close> element is not skipped. For the readings
  \<open>[{windTurbineId: "T1", powerKW: 500}, null, {windTurbineId: "T2", powerKW: 300}]\<close> and a
  store that accepts every row, reading \<open>windTurbineId\<close> of the second element throws, the
  handler answers 500, the third reading is never tried, and the row of the first stays
  in the table.
\<close>

theorem C8_null_reading_rejects_batch:
  "post_batch (\<lambda>row. False) noon null_reading_body empty_db =
     (ServerError500,
      \<lparr>windTurbines = [],
       powerOutputs = [\<lparr>po_windTurbineId = JString ''T1'', po_powerKW = 500,
                        po_timestamp = DateObj noon\<rparr>]\<rparr>)
   \<and> post_batch (\<lambda>row. False) noon scenario_body empty_db =
     (Created201 1 2,
      \<lparr>windTurbines = [],
       powerOutputs = [\<lparr>po_windTurbineId = JString ''T1'', po_powerKW = 500,
                        po_timestamp = DateObj noon\<rparr>]\<rparr>)"
  by (simp add: post_batch_def null_reading_body_def scenario_body_def empty_db_def
      accepted_def row_of_def create_def)

text \<open>
  Claim C9 fails on the delay after a failure. With \<open>STREAMING_INTERVAL = 10\<close>, a rejected
  submit is logged inside the loop and the next cycle is armed after \<open>10000\<close> ms; a rejected
  fetch is logged, the console says \<open>Retrying in 30 seconds...\<close>, and the timer armed is
  again the one of \<open>10000\<close> ms at the end of the function.
\<close>

theorem C9_counterexample:
  "fst (runSimulation (\<lambda>n. 1 / 2) 0 10 (\<lambda>i. noon) (Inr [t1000]) (\<lambda>i. False) initial_state) =
     [ConsoleLog ''Fetching active turbines...'', ConsoleLog ''Found active turbines'',
      SendBatch [\<lparr>windTurbineId = ''T1'', powerKW = 600, timestamp = noon, outlier = False,
                  outlierType = None\<rparr>],
      ConsoleError ''Error sending batch:'', Wait 1000,
      ConsoleLog ''Simulation cycle completed.'', SetTimeout_runSimulation 10000]
   \<and> fst (runSimulation (\<lambda>n. 1 / 2) 0 10 (\<lambda>i. noon) (Inl NetworkError) (\<lambda>i. True) initial_state) =
     [ConsoleLog ''Fetching active turbines...'', ConsoleError ''Simulation error:'',
      ConsoleLog ''Retrying in 30 seconds...'', SetTimeout_runSimulation 10000]"
  by (simp add: runSimulation_def slice_batches_single sim_eval initial_state_def t1000_def
      noon_def)

text \<open>
  Claim C9, amended. An empty turbine list arms the next run after \<open>30000\<close> ms and nothing
  else happens. With turbines, every batch is submitted whether or not earlier submits
  failed, each failed submit is logged once, and exactly one timer is armed, last, after
  \<open>STREAMING_INTERVAL\<close> seconds. A failed fetch is logged and exactly one timer is armed;
  the run always returns.
\<close>

theorem C9_driver_loop:
  "(fetched = Inr [] \<longrightarrow>
      runSimulation rnd chance interval clock fetched send_ok st =
        ([ConsoleLog ''Fetching active turbines...'',
          ConsoleLog ''No active turbines found. Retrying in 30 seconds...'',
          SetTimeout_runSimulation 30000], st))
 \<and> (fetched = Inr turbines \<and> turbines \<noteq> [] \<longrightarrow>
      filter is_timeout (fst (runSimulation rnd chance interval clock fetched send_ok st))
        = [SetTimeout_runSimulation (interval * 1000)]
    \<and> last (fst (runSimulation rnd chance interval clock fetched send_ok st))
        = SetTimeout_runSimulation (interval * 1000)
    \<and> length (filter is_send (fst (runSimulation rnd chance interval clock fetched send_ok st)))
        = length (slice_batches turbines)
    \<and> length (filter (\<lambda>a. a = ConsoleError ''Error sending batch:'')
                (fst (runSimulation rnd chance interval clock fetched send_ok st)))
        = length (filter (\<lambda>j. \<not> send_ok j) [0 ..< length (slice_batches turbines)]))
 \<and> (fetched = Inl e \<longrightarrow>
      ConsoleError ''Simulation error:''
        \<in> set (fst (runSimulation rnd chance interval clock fetched send_ok st))
    \<and> (\<exists>d. filter is_timeout (fst (runSimulation rnd chance interval clock fetched send_ok st))
             = [SetTimeout_runSimulation d])
    \<and> snd (runSimulation rnd chance interval clock fetched send_ok st) = st)"
proof -
  have a: "runSimulation rnd chance interval clock (Inr []) send_ok st =
        ([ConsoleLog ''Fetching active turbines...'',
          ConsoleLog ''No active turbines found. Retrying in 30 seconds...'',
          SetTimeout_runSimulation 30000], st)"
    by (simp add: runSimulation_def)
  have b: "filter is_timeout (fst (runSimulation rnd chance interval clock (Inr turbines) send_ok st))
        = [SetTimeout_runSimulation (interval * 1000)]
    \<and> last (fst (runSimulation rnd chance interval clock (Inr turbines) send_ok st))
        = SetTimeout_runSimulation (interval * 1000)
    \<and> length (filter is_send (fst (runSimulation rnd chance interval clock (Inr turbines) send_ok st)))
        = length (slice_batches turbines)
    \<and> length (filter (\<lambda>a. a = ConsoleError ''Error sending batch:'')
                (fst (runSimulation rnd chance interval clock (Inr turbines) send_ok st)))
        = length (filter (\<lambda>j. \<not> send_ok j) [0 ..< length (slice_batches turbines)])"
    if "turbines \<noteq> []"
    using that process_batches_shape [of rnd chance clock send_ok 0 "slice_batches turbines" st]
    by (simp add: runSimulation_def split_beta Let_def)
  have c: "ConsoleError ''Simulation error:''
        \<in> set (fst (runSimulation rnd chance interval clock (Inl e) send_ok st))
    \<and> (\<exists>d. filter is_timeout (fst (runSimulation rnd chance interval clock (Inl e) send_ok st))
             = [SetTimeout_runSimulation d])
    \<and> snd (runSimulation rnd chance interval clock (Inl e) send_ok st) = st"
    by (simp add: runSimulation_def)
  show ?thesis using a b c by blast
qed

theorem C9_witness:
  "runSimulation (\<lambda>n. 1 / 2) 0 10 (\<lambda>i. noon) (Inr []) (\<lambda>i. True) initial_state =
     ([ConsoleLog ''Fetching active turbines...'',
       ConsoleLog ''No active turbines found. Retrying in 30 seconds...'',
       SetTimeout_runSimulation 30000], initial_state)
   \<and> [t1000] \<noteq> []
   \<and> filter is_timeout
        (fst (runSimulation (\<lambda>n. 1 / 2) 0 10 (\<lambda>i. noon) (Inr [t1000]) (\<lambda>i. False) initial_state))
       = [SetTimeout_runSimulation 10000]
   \<and> length (filter (\<lambda>a. a = ConsoleError ''Error sending batch:'')
        (fst (runSimulation (\<lambda>n. 1 / 2) 0 10 (\<lambda>i. noon) (Inr [t1000]) (\<lambda>i. False) initial_state)))
       = 1
   \<and> ConsoleError ''Simulation error:''
        \<in> set (fst (runSimulation (\<lambda>n. 1 / 2) 0 10 (\<lambda>i. noon) (Inl NetworkError) (\<lambda>i. True)
                      initial_state))"
  using C9_driver_loop [of "Inr []" "\<lambda>n. 1 / 2" 0 10 "\<lambda>i. noon" "\<lambda>i. True" initial_state]
    C9_driver_loop [of "Inr [t1000]" "\<lambda>n. 1 / 2" 0 10 "\<lambda>i. noon" "\<lambda>i. False" initial_state
        "[t1000]"]
    C9_driver_loop [of "Inl NetworkError" "\<lambda>n. 1 / 2" 0 10 "\<lambda>i. noon" "\<lambda>i. True" initial_state
        "[]" NetworkError]
  by (simp add: slice_batches_single)

text \<open>
  Claim C10. \<open>sendPowerData\<close> asks for at most \<open>validateLimit(25) = 25\<close> turbines, so a
  \<open>power-output\<close> event has at most 25 entries, one for each of the first 25 active
  turbines of the table among the subscribed identifiers, in order, and the rows persisted
  by the tick are those of the same turbines; further matches are left out. When the store
  refuses no row the tick does push a \<open>power-output\<close> event.
\<close>

theorem C10_at_most_25_readings:
  "validateLimit (Some 25) DEFAULT_LIMIT = 25
 \<and> (fst (sendPowerData fk rejects ts ids k db) = PowerOutputEvent ev \<longrightarrow>
      length (ev_powerOutputs ev) \<le> 25
    \<and> ev_turbineCount ev = length (ev_powerOutputs ev)
    \<and> map pe_turbineId (ev_powerOutputs ev) =
        map turbine_id
          (take 25 (filter (\<lambda>t. active t \<and> turbine_id t \<in> set ids) (windTurbines db)))
    \<and> map po_windTurbineId (powerOutputs (snd (snd (sendPowerData fk rejects ts ids k db)))) =
        map po_windTurbineId (powerOutputs db)
        @ map (\<lambda>t. JString (turbine_id t))
            (take 25 (filter (\<lambda>t. active t \<and> turbine_id t \<in> set ids) (windTurbines db))))
 \<and> ((\<forall>row. \<not> rejects row) \<longrightarrow>
      (\<exists>ev'. fst (sendPowerData fk rejects ts ids k db) = PowerOutputEvent ev'))"
proof -
  let ?turbines = "take 25 (filter (\<lambda>t. active t \<and> turbine_id t \<in> set ids) (windTurbines db))"
  have fa: "findAll db ids (validateLimit (Some 25) DEFAULT_LIMIT) = ?turbines"
    by (simp add: findAll_def validateLimit_25)
  have ev: "length (ev_powerOutputs ev) \<le> 25
    \<and> ev_turbineCount ev = length (ev_powerOutputs ev)
    \<and> map pe_turbineId (ev_powerOutputs ev) = map turbine_id ?turbines
    \<and> map po_windTurbineId (powerOutputs (snd (snd (sendPowerData fk rejects ts ids k db)))) =
        map po_windTurbineId (powerOutputs db) @ map (\<lambda>t. JString (turbine_id t)) ?turbines"
    if h: "fst (sendPowerData fk rejects ts ids k db) = PowerOutputEvent ev"
  proof -
    obtain res k1 db1 where g: "generateAndSave fk rejects ts ?turbines k db = (res, k1, db1)"
      by (cases "generateAndSave fk rejects ts ?turbines k db") auto
    from h g fa obtain entries where res: "res = Inr entries"
      and evd: "ev = \<lparr>ev_timestamp = ts, ev_turbineCount = length entries,
                                ev_powerOutputs = entries\<rparr>"
      by (cases res) (auto simp: sendPowerData_def)
    from generateAndSave_entries [OF g [unfolded res]]
    have m: "map pe_turbineId entries = map turbine_id ?turbines"
      "map po_windTurbineId (powerOutputs db1) =
           map po_windTurbineId (powerOutputs db) @ map (\<lambda>t. JString (turbine_id t)) ?turbines"
      by simp_all
    have "length entries = length ?turbines" using m(1) by (metis length_map)
    then have "length entries \<le> 25" by simp
    moreover have "snd (snd (sendPowerData fk rejects ts ids k db)) = db1"
      using g fa res by (simp add: sendPowerData_def)
    ultimately show ?thesis using m evd by simp
  qed
  have tot: "\<exists>ev'. fst (sendPowerData fk rejects ts ids k db) = PowerOutputEvent ev'"
    if "\<forall>row. \<not> rejects row"
  proof -
    from that have rj: "rejects = (\<lambda>row. False)" by auto
    from generateAndSave_total [of fk ts ?turbines k db]
    obtain entries k1 db1 where
      "generateAndSave fk rejects ts ?turbines k db = (Inr entries, k1, db1)"
      unfolding rj by blast
    then show ?thesis using fa by (simp add: sendPowerData_def)
  qed
  show ?thesis using validateLimit_25 ev tot by blast
qed

theorem C10_witness:
  "length (map turbine_id (fleet 26)) = 26
   \<and> (\<forall>row. \<not> (\<lambda>row. False) row)
   \<and> (\<exists>ev. fst (sendPowerData faker_mid (\<lambda>row. False) noon (map turbine_id (fleet 26)) 0
                    (fleet_db 26)) = PowerOutputEvent ev
          \<and> length (ev_powerOutputs ev) = 25 \<and> ev_turbineCount ev = 25
          \<and> map pe_turbineId (ev_powerOutputs ev) = map turbine_id (fleet 25))"
proof -
  note th = C10_at_most_25_readings [of faker_mid "\<lambda>row. False" noon
      "map turbine_id (fleet 26)" 0 "fleet_db 26"]
  from th obtain ev where ev:
    "fst (sendPowerData faker_mid (\<lambda>row. False) noon (map turbine_id (fleet 26)) 0
        (fleet_db 26)) = PowerOutputEvent ev"
    by blast
  have w: "windTurbines (fleet_db 26) = fleet 26" by (simp add: fleet_db_def)
  have sel: "take 25 (filter (\<lambda>t. active t \<and> turbine_id t \<in> set (map turbine_id (fleet 26)))
               (windTurbines (fleet_db 26))) = fleet 25"
    unfolding w fleet_all_match by (rule fleet_take) simp
  from th [of ev] ev have
    c: "ev_turbineCount ev = length (ev_powerOutputs ev)"
    and m: "map pe_turbineId (ev_powerOutputs ev) = map turbine_id (fleet 25)"
    unfolding sel by blast+
  have "length (map pe_turbineId (ev_powerOutputs ev)) = length (map turbine_id (fleet 25))"
    using m by (rule arg_cong)
  then have l: "length (ev_powerOutputs ev) = 25" by (simp add: fleet_length)
  have "length (map turbine_id (fleet 26)) = 26" by (simp add: fleet_length)
  then show ?thesis using ev c m l by auto
qed

end
